theory Spec2Isabelle
  imports Main "HOL-Library.Word" "HOL-Library.Sublist"
begin

section \<open>Data model (models/QRCode.ts, models/User.ts)\<close>

text \<open>
  ObjectIds and dates are opaque to the controllers: ids are only compared for equality,
  dates are only stored and ordered. Both are natural numbers here (a date is its
  millisecond timestamp).
\<close>

type_synonym objectId = nat
type_synonym date = nat
type_synonym metadata_t = "(string \<times> string) list"

datatype QRCodeStatus = UNREDEEMED | REDEEMED

datatype UserType = APP_USER | SUPER_ADMIN | MANUFACTURER

text \<open>IQRCode; the field \<open>_id\<close> is \<open>id_doc\<close>.\<close>

record IQRCode =
  id_doc :: objectId
  code :: string
  status :: QRCodeStatus
  generatedBy :: objectId
  batchId :: string
  quantity :: nat
  batchNumber :: nat
  isActive :: bool
  redeemedAt :: "date option"
  redeemedBy :: "objectId option"
  metadata :: metadata_t
  createdAt :: date
  updatedAt :: date

text \<open>The part of IUser the QR code controllers read: \<open>req.user._id\<close>, \<open>userType\<close>, \<open>email\<close>.\<close>

record IUser =
  id_user :: objectId
  userType :: UserType
  email :: string

text \<open>
  The collection, in insertion order. The unique index on \<open>code\<close> and the store's
  own unique \<open>_id\<close> are the two invariants of a store state.
\<close>

type_synonym store = "IQRCode list"

definition unique_codes :: "store \<Rightarrow> bool" where
  "unique_codes st = distinct (map code st)"

definition unique_ids :: "store \<Rightarrow> bool" where
  "unique_ids st = distinct (map id_doc st)"

text \<open>
  What a handler sends: \<open>res.json\<close> (200), \<open>res.status(201)\<close>, 400, 403, 404 and the
  \<open>catch\<close> branch (500).
\<close>

datatype 'a response =
    Ok 'a
  | Created 'a
  | BadRequest
  | Forbidden
  | NotFound
  | ServerError

section \<open>Code format (utils/qrCodeGenerator.ts, isValidQRCode)\<close>

text \<open>
  \<open>/^[a-f0-9]{8,20}$/i.test(code)\<close>. The class is \<open>[a-f0-9]\<close>; under the flag \<open>i\<close> a
  character matches the class when its canonical form equals the canonical form of a
  member of the class. Canonicalisation maps an ASCII lowercase letter to its uppercase
  letter and never maps a character outside ASCII into ASCII.
\<close>

definition hex_class :: string where
  "hex_class = ''abcdef0123456789''"

definition canonicalize :: "char \<Rightarrow> char" where
  "canonicalize ch =
     (if (97::nat) \<le> of_char ch \<and> of_char ch \<le> (122::nat)
      then char_of (of_char ch - (32::nat)) else ch)"

definition class_matches_i :: "string \<Rightarrow> char \<Rightarrow> bool" where
  "class_matches_i cls ch = list_ex (\<lambda>m. canonicalize ch = canonicalize m) cls"

definition isValidQRCode :: "string \<Rightarrow> bool" where
  "isValidQRCode c =
     (8 \<le> length c \<and> length c \<le> 20 \<and> list_all (class_matches_i hex_class) c)"

text \<open>The pattern of the specification, \<open>^[a-f0-9]{8,20}$\<close> without the flag.\<close>

definition is_lower_hex :: "char \<Rightarrow> bool" where
  "is_lower_hex ch = (ch \<in> set ''0123456789abcdef'')"

definition is_upper_hex :: "char \<Rightarrow> bool" where
  "is_upper_hex ch = (ch \<in> set ''ABCDEF'')"

definition matches_lower_hex_8_20 :: "string \<Rightarrow> bool" where
  "matches_lower_hex_8_20 c =
     (8 \<le> length c \<and> length c \<le> 20 \<and> list_all is_lower_hex c)"

text \<open>The same bounds over both cases of the hexadecimal letters.\<close>

definition matches_hex_ci_8_20 :: "string \<Rightarrow> bool" where
  "matches_hex_ci_8_20 c =
     (8 \<le> length c \<and> length c \<le> 20
      \<and> list_all (\<lambda>ch. is_lower_hex ch \<or> is_upper_hex ch) c)"

section \<open>Redemption (controllers/qrCodeController.ts, redeemQRCode)\<close>

text \<open>
  \<open>Model.updateOne\<close> restricted to what \<open>doc.save()\<close> issues: the first document that
  satisfies the filter is rewritten; \<open>None\<close> when no document matches (then \<open>save\<close>
  rejects and the handler answers 500).
\<close>

fun updateOne :: "(IQRCode \<Rightarrow> bool) \<Rightarrow> (IQRCode \<Rightarrow> IQRCode) \<Rightarrow> store \<Rightarrow> store option" where
  "updateOne P f [] = None"
| "updateOne P f (r # rs) =
     (if P r then Some (f r # rs) else map_option ((#) r) (updateOne P f rs))"

text \<open>
  \<open>qrCode.save()\<close> after the three assignments: the modified paths \<open>status\<close>,
  \<open>redeemedAt\<close>, \<open>redeemedBy\<close> are written to the document with the same \<open>_id\<close>, and
  the schema option \<open>timestamps: true\<close> makes the store set \<open>updatedAt\<close>.
\<close>

definition save :: "IQRCode \<Rightarrow> date \<Rightarrow> store \<Rightarrow> store option" where
  "save q now st =
     updateOne (\<lambda>r. id_doc r = id_doc q)
       (\<lambda>r. r\<lparr>status := status q, redeemedAt := redeemedAt q,
               redeemedBy := redeemedBy q, updatedAt := now\<rparr>) st"

record redeemed_info =
  info_id :: objectId
  info_code :: string
  info_batchId :: string
  info_redeemedAt :: "date option"

text \<open>The two store round trips of the handler, \<open>findOne\<close> and \<open>save\<close>.\<close>

definition findUnredeemed :: "string \<Rightarrow> store \<Rightarrow> IQRCode option" where
  "findUnredeemed c st = find (\<lambda>r. code r = c \<and> status r = UNREDEEMED) st"

definition markRedeemed :: "IUser \<Rightarrow> date \<Rightarrow> IQRCode \<Rightarrow> IQRCode" where
  "markRedeemed u now q =
     q\<lparr>status := REDEEMED, redeemedAt := Some now, redeemedBy := Some (id_user u)\<rparr>"

definition redeemQRCode ::
  "IUser \<Rightarrow> date \<Rightarrow> string \<Rightarrow> store \<Rightarrow> redeemed_info response \<times> store" where
  "redeemQRCode u now c st =
     (if c = [] \<or> \<not> isValidQRCode c then (BadRequest, st)
      else case findUnredeemed c st of
        None \<Rightarrow> (NotFound, st)
      | Some q \<Rightarrow>
          (let q' = markRedeemed u now q in
           case save q' now st of
             None \<Rightarrow> (ServerError, st)
           | Some st' \<Rightarrow>
               (Ok \<lparr>info_id = id_doc q', info_code = code q',
                    info_batchId = batchId q', info_redeemedAt = redeemedAt q'\<rparr>, st')))"

text \<open>
  The same handler as its two store round trips, for interleaved executions: a handler
  is at its start, between \<open>findOne\<close> and \<open>save\<close> (holding the document it read and
  modified in memory), or has sent its response.
\<close>

datatype handler = Start | Found IQRCode | Finished "redeemed_info response"

type_synonym redeem_request = "IUser \<times> date \<times> string"

definition step_findOne :: "IUser \<Rightarrow> date \<Rightarrow> string \<Rightarrow> store \<Rightarrow> handler" where
  "step_findOne u now c st =
     (if c = [] \<or> \<not> isValidQRCode c then Finished BadRequest
      else case findUnredeemed c st of
        None \<Rightarrow> Finished NotFound
      | Some q \<Rightarrow> Found (markRedeemed u now q))"

definition step_save :: "date \<Rightarrow> IQRCode \<Rightarrow> store \<Rightarrow> handler \<times> store" where
  "step_save now q' st =
     (case save q' now st of
        None \<Rightarrow> (Finished ServerError, st)
      | Some st' \<Rightarrow>
          (Finished (Ok \<lparr>info_id = id_doc q', info_code = code q',
                         info_batchId = batchId q', info_redeemedAt = redeemedAt q'\<rparr>), st'))"

fun run_handler :: "redeem_request \<Rightarrow> handler \<Rightarrow> store \<Rightarrow> handler \<times> store" where
  "run_handler (u, now, c) Start st = (step_findOne u now c st, st)"
| "run_handler (u, now, c) (Found q') st = step_save now q' st"
| "run_handler (u, now, c) (Finished r) st = (Finished r, st)"

text \<open>
  A schedule names, round trip by round trip, the handler that runs next; handlers run
  one round trip at a time against the shared store.
\<close>

fun run_schedule ::
  "redeem_request list \<Rightarrow> nat list \<Rightarrow> handler list \<times> store \<Rightarrow> handler list \<times> store" where
  "run_schedule rqs [] s = s"
| "run_schedule rqs (i # sched) (hs, st) =
     (if i < length hs \<and> i < length rqs then
        (case run_handler (rqs ! i) (hs ! i) st of
           (h', st') \<Rightarrow> run_schedule rqs sched (hs[i := h'], st'))
      else run_schedule rqs sched (hs, st))"

section \<open>Code generation (utils/qrCodeGenerator.ts)\<close>

text \<open>
  \<open>crypto.randomBytes\<close> is the only source of randomness. It is a parameter: a byte
  source gives the byte at each position of one draw, so that \<open>randomBytes n\<close> has
  exactly \<open>n\<close> bytes.
\<close>

type_synonym byte_source = "nat \<Rightarrow> 8 word"

definition randomBytes :: "byte_source \<Rightarrow> nat \<Rightarrow> 8 word list" where
  "randomBytes src n = map src [0..<n]"

definition hex_digit :: "nat \<Rightarrow> char" where
  "hex_digit d = ''0123456789abcdef'' ! d"

text \<open>\<open>Buffer.toString('hex')\<close>: two lowercase digits for each byte.\<close>

definition toHex :: "8 word list \<Rightarrow> string" where
  "toHex bs = concat (map (\<lambda>b. [hex_digit (unat b div 16), hex_digit (unat b mod 16)]) bs)"

text \<open>
  \<open>randomBytes(Math.ceil(length / 2)).toString('hex').substring(0, length)\<close>
\<close>

definition candidate :: "byte_source \<Rightarrow> nat \<Rightarrow> string" where
  "candidate src len = take len (toHex (randomBytes src ((len + 1) div 2)))"

definition maxAttempts :: nat where
  "maxAttempts = 100"

text \<open>
  The \<open>while\<close> loop of generateUniqueQRCode; \<open>src a\<close> is the draw of attempt \<open>a\<close>.
  \<open>None\<close> is the \<open>throw\<close> after the last attempt.
\<close>

function generateUniqueQRCode_loop ::
  "store \<Rightarrow> (nat \<Rightarrow> byte_source) \<Rightarrow> nat \<Rightarrow> nat \<Rightarrow> string option" where
  "generateUniqueQRCode_loop st src len attempts =
     (if attempts < maxAttempts then
        (let c = candidate (src attempts) len in
         if find (\<lambda>r. code r = c) st = None then Some c
         else generateUniqueQRCode_loop st src len (attempts + 1))
      else None)"
  by pat_completeness auto
termination
  by (relation "measure (\<lambda>(st, src, len, attempts). maxAttempts - attempts)") auto

definition generateUniqueQRCode :: "store \<Rightarrow> (nat \<Rightarrow> byte_source) \<Rightarrow> nat \<Rightarrow> string option" where
  "generateUniqueQRCode st src len = generateUniqueQRCode_loop st src len 0"

text \<open>\<open>Promise.all\<close>: all results in order, or the rejection of the first that rejects.\<close>

fun promise_all :: "'a option list \<Rightarrow> 'a list option" where
  "promise_all [] = Some []"
| "promise_all (None # ps) = None"
| "promise_all (Some x # ps) = map_option ((#) x) (promise_all ps)"

definition batchSize :: nat where
  "batchSize = 100"

text \<open>
  The \<open>for\<close> loop of generateMultipleUniqueQRCodes. The generators of one group run
  against the same store, which generation only reads; \<open>rnd k\<close> gives the draws of
  slot \<open>k\<close>, numbered over the whole request.
\<close>

function generateMultiple_loop ::
  "store \<Rightarrow> (nat \<Rightarrow> nat \<Rightarrow> byte_source) \<Rightarrow> nat \<Rightarrow> nat \<Rightarrow> nat \<Rightarrow> string list
     \<Rightarrow> string list option" where
  "generateMultiple_loop st rnd count len i codes =
     (if i < count then
        (let currentBatchSize = min batchSize (count - i);
             batchPromises =
               map (\<lambda>k. generateUniqueQRCode st (rnd (i + k)) len) [0..<currentBatchSize]
         in case promise_all batchPromises of
              None \<Rightarrow> None
            | Some batchCodes \<Rightarrow>
                generateMultiple_loop st rnd count len (i + batchSize) (codes @ batchCodes))
      else Some codes)"
  by pat_completeness auto
termination
  by (relation "measure (\<lambda>(st, rnd, count, len, i, codes). count - i)")
     (auto simp: batchSize_def)

definition generateMultipleUniqueQRCodes ::
  "store \<Rightarrow> (nat \<Rightarrow> nat \<Rightarrow> byte_source) \<Rightarrow> nat \<Rightarrow> nat \<Rightarrow> string list option" where
  "generateMultipleUniqueQRCodes st rnd count len = generateMultiple_loop st rnd count len 0 []"

text \<open>\<open>Number.prototype.toString(36)\<close> on a non-negative integer.\<close>

definition digit36 :: "nat \<Rightarrow> char" where
  "digit36 d = ''0123456789abcdefghijklmnopqrstuvwxyz'' ! d"

function toString36 :: "nat \<Rightarrow> string" where
  "toString36 n = (if n < 36 then [digit36 n] else toString36 (n div 36) @ [digit36 (n mod 36)])"
  by pat_completeness auto
termination
  by (relation "measure (\<lambda>n. n)") auto

definition generateBatchId :: "date \<Rightarrow> byte_source \<Rightarrow> string" where
  "generateBatchId now src = ''batch_'' @ toString36 now @ ''_'' @ toHex (randomBytes src 4)"

declare generateUniqueQRCode_loop.simps [simp del]
declare generateMultiple_loop.simps [simp del]
declare toString36.simps [simp del]

section \<open>Bulk generation (controllers/qrCodeController.ts, generateBulkQRCodes)\<close>

text \<open>The documents handed to \<open>QRCode.insertMany\<close>.\<close>

record new_doc =
  new_code :: string
  new_generatedBy :: objectId
  new_batchId :: string
  new_quantity :: nat
  new_batchNumber :: nat
  new_metadata :: metadata_t

text \<open>
  The validators of the schema: \<open>minlength 8\<close> and \<open>maxlength 20\<close> on \<open>code\<close>,
  \<open>min 1\<close> on \<open>quantity\<close> and \<open>batchNumber\<close>.
\<close>

definition schema_valid :: "new_doc \<Rightarrow> bool" where
  "schema_valid d =
     (8 \<le> length (new_code d) \<and> length (new_code d) \<le> 20
      \<and> 1 \<le> new_quantity d \<and> 1 \<le> new_batchNumber d)"

text \<open>
  A stored document: the schema defaults (\<open>status\<close> unredeemed, \<open>isActive\<close> true, no
  redemption fields) and the timestamps.
\<close>

definition make_doc :: "objectId \<Rightarrow> date \<Rightarrow> new_doc \<Rightarrow> IQRCode" where
  "make_doc i now d =
     \<lparr>id_doc = i, code = new_code d, status = UNREDEEMED,
      generatedBy = new_generatedBy d, batchId = new_batchId d,
      quantity = new_quantity d, batchNumber = new_batchNumber d, isActive = True,
      redeemedAt = None, redeemedBy = None, metadata = new_metadata d,
      createdAt = now, updatedAt = now\<rparr>"

definition fresh_id :: "store \<Rightarrow> objectId" where
  "fresh_id st = Suc (fold max (map id_doc st) 0)"

text \<open>
  The unordered bulk write (\<open>ordered: false\<close>): each document is tried in turn; one
  whose code is already stored is rejected by the unique index and the others go on.
  The result is the inserted documents and the new store.
\<close>

fun insert_unordered :: "date \<Rightarrow> new_doc list \<Rightarrow> store \<Rightarrow> IQRCode list \<times> store" where
  "insert_unordered now [] st = ([], st)"
| "insert_unordered now (d # ds) st =
     (if find (\<lambda>r. code r = new_code d) st = None then
        (let r = make_doc (fresh_id st) now d in
         case insert_unordered now ds (st @ [r]) of (ins, st') \<Rightarrow> (r # ins, st'))
      else insert_unordered now ds st)"

text \<open>
  \<open>QRCode.insertMany(docs, {ordered: false})\<close>: documents that fail the schema
  validators are left out, the others are written unordered. The third component
  says whether the index rejected a document.
\<close>

definition insertMany :: "date \<Rightarrow> new_doc list \<Rightarrow> store \<Rightarrow> IQRCode list \<times> store \<times> bool" where
  "insertMany now docs st =
     (let valid = filter schema_valid docs in
      case insert_unordered now valid st of
        (ins, st') \<Rightarrow> (ins, st', length ins < length valid))"

text \<open>
  The request body of a generation, as express-validator passes it on, and
  validateQRCodeGeneration (middlewares/validation.ts).
\<close>

record generate_body =
  body_quantity :: nat
  body_length :: "nat option"
  body_metadata :: "metadata_t option"

definition validateQRCodeGeneration :: "generate_body \<Rightarrow> bool" where
  "validateQRCodeGeneration b =
     (1 \<le> body_quantity b \<and> body_quantity b \<le> 10000
      \<and> (case body_length b of None \<Rightarrow> True | Some l \<Rightarrow> 8 \<le> l \<and> l \<le> 20))"

text \<open>
  What the handler reads from outside: the clock, the random bytes of the batch id and
  of every (slot, attempt) of the generator, and whether the store library makes
  \<open>insertMany\<close> reject after an unordered write in which the index rejected a document
  (the library is not part of the repository; the handler is modelled for both).
\<close>

record gen_env =
  env_now :: date
  env_batch_random :: byte_source
  env_code_random :: "nat \<Rightarrow> nat \<Rightarrow> byte_source"
  env_insert_rejects :: bool

record generate_result =
  res_batchId :: string
  res_quantity :: nat
  res_codes :: "string list"

definition qrCodeDocs ::
  "objectId \<Rightarrow> string \<Rightarrow> nat \<Rightarrow> metadata_t \<Rightarrow> string list \<Rightarrow> new_doc list" where
  "qrCodeDocs gen_by bid qty md codes =
     map (\<lambda>(index, c).
            \<lparr>new_code = c, new_generatedBy = gen_by, new_batchId = bid,
             new_quantity = qty, new_batchNumber = index + 1, new_metadata = md\<rparr>)
       (enumerate 0 codes)"

definition generateBulkQRCodes ::
  "gen_env \<Rightarrow> IUser \<Rightarrow> generate_body \<Rightarrow> store \<Rightarrow> generate_result response \<times> store" where
  "generateBulkQRCodes env u body st =
     (if \<not> validateQRCodeGeneration body then (BadRequest, st)
      else
        (let qty = body_quantity body;
             len = (case body_length body of None \<Rightarrow> 12 | Some l \<Rightarrow> l);
             md = (case body_metadata body of None \<Rightarrow> [] | Some m \<Rightarrow> m);
             gen_by = id_user u
         in if qty > 10000 then (BadRequest, st)
            else
              (let bid = generateBatchId (env_now env) (env_batch_random env) in
               case generateMultipleUniqueQRCodes st (env_code_random env) qty len of
                 None \<Rightarrow> (ServerError, st)
               | Some codes \<Rightarrow>
                   (case insertMany (env_now env) (qrCodeDocs gen_by bid qty md codes) st of
                      (result, st', rejected) \<Rightarrow>
                        if rejected \<and> env_insert_rejects env then (ServerError, st')
                        else (Created \<lparr>res_batchId = bid, res_quantity = length result,
                                       res_codes = map code result\<rparr>, st')))))"

text \<open>The batch numbers stored under a batch id, in insertion order.\<close>

definition batch_numbers :: "string \<Rightarrow> store \<Rightarrow> nat list" where
  "batch_numbers b st = map batchNumber (filter (\<lambda>r. batchId r = b) st)"

text \<open>A stored document that came from a given document of the bulk write.\<close>

definition stored_as :: "date \<Rightarrow> IQRCode \<Rightarrow> new_doc \<Rightarrow> bool" where
  "stored_as now r d = (r = make_doc (id_doc r) now d)"

section \<open>Queries: list and delete (controllers/qrCodeController.ts)\<close>

text \<open>
  The query objects the handlers build: each field is absent or set, and a later
  assignment to a field replaces an earlier one.
\<close>

record mongo_query =
  query_status :: "QRCodeStatus option"
  query_batchId :: "string option"
  query_generatedBy :: "objectId option"
  query_or_regex :: "string option"
  query_id_in :: "objectId list option"

definition empty_query :: mongo_query where
  "empty_query =
     \<lparr>query_status = None, query_batchId = None, query_generatedBy = None,
      query_or_regex = None, query_id_in = None\<rparr>"

text \<open>
  A document matches when it matches every field that is set. \<open>rx p s\<close> is the
  store's \<open>$regex\<close> match of pattern \<open>p\<close> (with option \<open>i\<close>) in \<open>s\<close>, a parameter.
\<close>

definition matches :: "(string \<Rightarrow> string \<Rightarrow> bool) \<Rightarrow> mongo_query \<Rightarrow> IQRCode \<Rightarrow> bool" where
  "matches rx q r =
     ((case query_status q of None \<Rightarrow> True | Some s \<Rightarrow> status r = s)
      \<and> (case query_batchId q of None \<Rightarrow> True | Some b \<Rightarrow> batchId r = b)
      \<and> (case query_generatedBy q of None \<Rightarrow> True | Some g \<Rightarrow> generatedBy r = g)
      \<and> (case query_or_regex q of None \<Rightarrow> True | Some p \<Rightarrow> rx p (code r) \<or> rx p (batchId r))
      \<and> (case query_id_in q of None \<Rightarrow> True | Some ids \<Rightarrow> id_doc r \<in> set ids))"

record list_request =
  req_page :: "int option"
  req_limit :: "int option"
  req_status :: "string option"
  req_batchId :: "string option"
  req_search :: "string option"
  req_generatedBy :: "objectId option"

definition parse_status :: "string \<Rightarrow> QRCodeStatus option" where
  "parse_status s =
     (if s = ''unredeemed'' then Some UNREDEEMED
      else if s = ''redeemed'' then Some REDEEMED else None)"

text \<open>A query-string value is truthy when it is present and not empty.\<close>

definition truthy :: "string option \<Rightarrow> bool" where
  "truthy v = (case v of None \<Rightarrow> False | Some s \<Rightarrow> s \<noteq> [])"

definition list_query :: "IUser \<Rightarrow> list_request \<Rightarrow> mongo_query" where
  "list_query u rq =
     (let q0 = empty_query;
          q1 = (case req_status rq of
                  Some s \<Rightarrow> (if s \<noteq> [] \<and> parse_status s \<noteq> None
                             then q0\<lparr>query_status := parse_status s\<rparr> else q0)
                | None \<Rightarrow> q0);
          q2 = (if truthy (req_batchId rq) then q1\<lparr>query_batchId := req_batchId rq\<rparr> else q1);
          q3 = (case req_generatedBy rq of
                  Some g \<Rightarrow> q2\<lparr>query_generatedBy := Some g\<rparr> | None \<Rightarrow> q2);
          q4 = (if truthy (req_search rq) then q3\<lparr>query_or_regex := req_search rq\<rparr> else q3)
      in if userType u = MANUFACTURER then q4\<lparr>query_generatedBy := Some (id_user u)\<rparr> else q4)"

record list_result =
  res_qrCodes :: "IQRCode list"
  res_total :: nat

text \<open>
  \<open>find(query).sort({createdAt: -1}).skip(skip).limit(limit)\<close>. The store refuses a
  negative skip (the handler answers 500); a limit of 0 is no limit and a negative
  limit is its absolute value.
\<close>

definition getQRCodes ::
  "(string \<Rightarrow> string \<Rightarrow> bool) \<Rightarrow> IUser \<Rightarrow> list_request \<Rightarrow> store \<Rightarrow> list_result response" where
  "getQRCodes rx u rq st =
     (let page = (case req_page rq of None \<Rightarrow> 1 | Some p \<Rightarrow> p);
          limit = (case req_limit rq of None \<Rightarrow> 50 | Some l \<Rightarrow> l);
          query = list_query u rq;
          skip = (page - 1) * limit
      in if skip < 0 then ServerError
         else
           (let found = sort_key (\<lambda>r. - int (createdAt r)) (filter (matches rx query) st);
                skipped = drop (nat skip) found;
                qrCodes = (if limit = 0 then skipped else take (nat \<bar>limit\<bar>) skipped)
            in Ok \<lparr>res_qrCodes = qrCodes, res_total = length (filter (matches rx query) st)\<rparr>))"

record deleted_info =
  del_id :: objectId
  del_code :: string
  del_batchId :: string

definition summary :: "IQRCode \<Rightarrow> deleted_info" where
  "summary r = \<lparr>del_id = id_doc r, del_code = code r, del_batchId = batchId r\<rparr>"

text \<open>\<open>findByIdAndDelete\<close>: the first document with the id is removed.\<close>

fun deleteOne :: "(IQRCode \<Rightarrow> bool) \<Rightarrow> store \<Rightarrow> store" where
  "deleteOne P [] = []"
| "deleteOne P (r # rs) = (if P r then rs else r # deleteOne P rs)"

definition deleteQRCode :: "IUser \<Rightarrow> objectId \<Rightarrow> store \<Rightarrow> deleted_info response \<times> store" where
  "deleteQRCode u i st =
     (case find (\<lambda>r. id_doc r = i) st of
        None \<Rightarrow> (NotFound, st)
      | Some qrCode \<Rightarrow>
          if userType u = MANUFACTURER \<and> generatedBy qrCode \<noteq> id_user u then (Forbidden, st)
          else (Ok (summary qrCode), deleteOne (\<lambda>r. id_doc r = i) st))"

text \<open>
  The request body of a bulk deletion as the handler reads it, and
  validateBulkQRCodeDeletion: \<open>qrCodeIds\<close>, when present, is a non-empty array;
  \<open>batchId\<close>, when present, is a non-empty string.
\<close>

record delete_body =
  body_qrCodeIds :: "objectId list option"
  body_batchId :: "string option"

definition validateBulkQRCodeDeletion :: "delete_body \<Rightarrow> bool" where
  "validateBulkQRCodeDeletion b =
     ((case body_qrCodeIds b of None \<Rightarrow> True | Some ids \<Rightarrow> ids \<noteq> [])
      \<and> (case body_batchId b of None \<Rightarrow> True | Some s \<Rightarrow> s \<noteq> []))"

record bulk_delete_result =
  res_deletedCount :: nat
  res_deletedQRCodes :: "deleted_info list"

text \<open>\<open>deleteMany(query)\<close> removes every document that matches.\<close>

definition deleteMany :: "(string \<Rightarrow> string \<Rightarrow> bool) \<Rightarrow> mongo_query \<Rightarrow> store \<Rightarrow> store" where
  "deleteMany rx q st = filter (\<lambda>r. \<not> matches rx q r) st"

definition bulk_delete_query :: "IUser \<Rightarrow> delete_body \<Rightarrow> mongo_query option" where
  "bulk_delete_query u body =
     (let q0 = empty_query;
          q1 = (if truthy (body_batchId body)
                then Some (q0\<lparr>query_batchId := body_batchId body\<rparr>)
                else case body_qrCodeIds body of
                       Some ids \<Rightarrow> (if length ids > 0 then Some (q0\<lparr>query_id_in := Some ids\<rparr>)
                                   else None)
                     | None \<Rightarrow> None)
      in case q1 of
           None \<Rightarrow> None
         | Some q \<Rightarrow>
             Some (if userType u = MANUFACTURER
                   then q\<lparr>query_generatedBy := Some (id_user u)\<rparr> else q))"

definition bulkDeleteQRCodes ::
  "(string \<Rightarrow> string \<Rightarrow> bool) \<Rightarrow> IUser \<Rightarrow> delete_body \<Rightarrow> store
     \<Rightarrow> bulk_delete_result response \<times> store" where
  "bulkDeleteQRCodes rx u body st =
     (if \<not> validateBulkQRCodeDeletion body then (BadRequest, st)
      else if body_qrCodeIds body = None \<and> \<not> truthy (body_batchId body) then (BadRequest, st)
      else case bulk_delete_query u body of
        None \<Rightarrow> (BadRequest, st)
      | Some query \<Rightarrow>
          (let qrCodes = filter (matches rx query) st in
           if length qrCodes = 0 then (NotFound, st)
           else
             (let st' = deleteMany rx query st in
              (Ok \<lparr>res_deletedCount = length st - length st',
                   res_deletedQRCodes = map summary qrCodes\<rparr>, st'))))"

text \<open>The records a list response carries (none when the request failed).\<close>

definition listed_records :: "list_result response \<Rightarrow> IQRCode list" where
  "listed_records resp = (case resp of Ok res \<Rightarrow> res_qrCodes res | _ \<Rightarrow> [])"

text \<open>
  The access scope: a manufacturer sees and mutates its own records, any other portal
  user all records.
\<close>

definition in_scope :: "IUser \<Rightarrow> IQRCode \<Rightarrow> bool" where
  "in_scope u r = (if userType u = MANUFACTURER then generatedBy r = id_user u else True)"

text \<open>The records of a store that were generated by somebody else, in order.\<close>

definition foreign_records :: "IUser \<Rightarrow> store \<Rightarrow> IQRCode list" where
  "foreign_records u st = filter (\<lambda>r. generatedBy r \<noteq> id_user u) st"

section \<open>Concrete users, documents and stores\<close>

text \<open>
  Random bytes for the generator: every draw of slot 2 is the byte 0x11 repeated, every
  draw of any other slot is zero bytes; and a source whose draws are the slot number.
\<close>

definition demo_random :: "nat \<Rightarrow> nat \<Rightarrow> byte_source" where
  "demo_random k a i = (if k = 2 then 17 else 0)"

definition slot_random :: "nat \<Rightarrow> nat \<Rightarrow> byte_source" where
  "slot_random k a i = of_nat k"

definition demo_env :: "(nat \<Rightarrow> nat \<Rightarrow> byte_source) \<Rightarrow> bool \<Rightarrow> gen_env" where
  "demo_env rnd rejects =
     \<lparr>env_now = 1000, env_batch_random = (\<lambda>i. 0), env_code_random = rnd,
      env_insert_rejects = rejects\<rparr>"

definition demo_user :: "objectId \<Rightarrow> IUser" where
  "demo_user i = \<lparr>id_user = i, userType = APP_USER, email = ''user@example.com''\<rparr>"

definition demo_doc :: "objectId \<Rightarrow> string \<Rightarrow> IQRCode" where
  "demo_doc i c =
     \<lparr>id_doc = i, code = c, status = UNREDEEMED, generatedBy = 7,
      batchId = ''batch_1_00000000'', quantity = 2, batchNumber = i, isActive = True,
      redeemedAt = None, redeemedBy = None, metadata = [],
      createdAt = 100, updatedAt = 100\<rparr>"

definition owned_doc :: "objectId \<Rightarrow> objectId \<Rightarrow> string \<Rightarrow> string \<Rightarrow> IQRCode" where
  "owned_doc g i c b = (demo_doc i c)\<lparr>generatedBy := g, batchId := b\<rparr>"

definition demo_manufacturer :: IUser where
  "demo_manufacturer = \<lparr>id_user = 7, userType = MANUFACTURER, email = ''maker@example.com''\<rparr>"

definition demo_store :: store where
  "demo_store =
     [owned_doc 7 1 ''aaaaaaaa'' ''batch_a'', owned_doc 8 2 ''bbbbbbbb'' ''batch_a'',
      owned_doc 7 3 ''cccccccc'' ''batch_b'']"

section \<open>Properties of the code format\<close>

lemma of_char_canonicalize:
  "(of_char (canonicalize ch) :: nat) =
     (if 97 \<le> (of_char ch :: nat) \<and> (of_char ch :: nat) \<le> 122
      then of_char ch - 32 else of_char ch)"
proof -
  have "(of_char ch :: nat) < 256" by simp
  then have "(of_char ch - 32 :: nat) mod 256 = of_char ch - 32"
    by (simp add: less_imp_diff_less)
  then show ?thesis by (simp add: canonicalize_def)
qed

lemma canonicalize_eq_iff:
  "(canonicalize ch = canonicalize m)
     = ((of_char (canonicalize ch) :: nat) = of_char (canonicalize m))"
  by simp

lemma class_matches_hex:
  "class_matches_i hex_class ch = (is_lower_hex ch \<or> is_upper_hex ch)"
proof -
  have eq: "\<And>m. (ch = m) = ((of_char ch :: nat) = of_char m)" by simp
  show ?thesis
    unfolding class_matches_i_def hex_class_def is_lower_hex_def is_upper_hex_def
    apply (simp only: list_ex_iff bex_simps list.set insert_iff empty_iff
        canonicalize_eq_iff of_char_canonicalize eq)
    apply simp
    apply arith
    done
qed

lemma class_matches_hex_fun:
  "class_matches_i hex_class = (\<lambda>ch. is_lower_hex ch \<or> is_upper_hex ch)"
  by (rule ext) (rule class_matches_hex)

lemma isValidQRCode_iff: "isValidQRCode c = matches_hex_ci_8_20 c"
  by (simp add: isValidQRCode_def matches_hex_ci_8_20_def class_matches_hex_fun)

lemma isValidQRCode_nonempty: "isValidQRCode c \<Longrightarrow> c \<noteq> []"
  by (auto simp: isValidQRCode_def)

lemma valid_deadbeef12: "isValidQRCode ''deadbeef12''"
  by (simp add: isValidQRCode_iff matches_hex_ci_8_20_def is_lower_hex_def)

section \<open>Properties of redemption\<close>

lemma updateOne_split:
  "\<forall>x\<in>set xs. \<not> P x \<Longrightarrow> P q \<Longrightarrow> updateOne P f (xs @ q # ys) = Some (xs @ f q # ys)"
  by (induction xs) auto

lemma updateOne_Some:
  "q \<in> set st \<Longrightarrow> P q \<Longrightarrow> \<exists>st'. updateOne P f st = Some st'"
  by (induction st) auto

lemma find_split:
  "find P st = Some q \<Longrightarrow> \<exists>xs ys. st = xs @ q # ys \<and> P q \<and> (\<forall>x\<in>set xs. \<not> P x)"
proof (induction st)
  case Nil
  then show ?case by simp
next
  case (Cons r rs)
  show ?case
  proof (cases "P r")
    case True
    with Cons.prems have "r = q" by simp
    with True have "r # rs = [] @ q # rs \<and> P q \<and> (\<forall>x\<in>set []. \<not> P x)" by simp
    then show ?thesis by blast
  next
    case False
    with Cons.prems have "find P rs = Some q" by simp
    from Cons.IH [OF this] obtain xs ys
      where "rs = xs @ q # ys" "P q" "\<forall>x\<in>set xs. \<not> P x" by blast
    with False have "r # rs = (r # xs) @ q # ys \<and> P q \<and> (\<forall>x\<in>set (r # xs). \<not> P x)"
      by simp
    then show ?thesis by blast
  qed
qed

lemma distinct_map_prefix:
  "distinct (map f (xs @ q # ys)) \<Longrightarrow> x \<in> set xs \<Longrightarrow> f x \<noteq> f q"
  by (induction xs) auto

lemma distinct_map_suffix:
  "distinct (map f (xs @ q # ys)) \<Longrightarrow> y \<in> set ys \<Longrightarrow> f y \<noteq> f q"
  by (induction xs) (auto simp: image_iff)

lemma findUnredeemed_None_iff:
  "(findUnredeemed c st = None) = (\<not> list_ex (\<lambda>r. code r = c \<and> status r = UNREDEEMED) st)"
  by (auto simp: findUnredeemed_def find_None_iff list_ex_iff)

lemma findUnredeemed_in_set:
  "findUnredeemed c st = Some q \<Longrightarrow> q \<in> set st"
  by (auto simp: findUnredeemed_def dest: find_split)

lemma save_found_Some:
  "q \<in> set st \<Longrightarrow> \<exists>st'. save (markRedeemed u now q) now st = Some st'"
  unfolding save_def by (rule updateOne_Some [where q = q]) (simp_all add: markRedeemed_def)

text \<open>
  A successful redemption rewrites the first unredeemed document with the code, in
  place.
\<close>

lemma redeem_Ok_split:
  assumes ids: "unique_ids st"
    and ok: "redeemQRCode u now c st = (Ok info, st')"
  shows "\<exists>xs q ys. st = xs @ q # ys \<and> code q = c \<and> status q = UNREDEEMED
           \<and> (\<forall>x\<in>set xs. \<not> (code x = c \<and> status x = UNREDEEMED))
           \<and> st' = xs @ (markRedeemed u now q)\<lparr>updatedAt := now\<rparr> # ys
           \<and> info = \<lparr>info_id = id_doc q, info_code = c, info_batchId = batchId q,
                      info_redeemedAt = Some now\<rparr>"
proof -
  from ok obtain q where f: "findUnredeemed c st = Some q"
    by (auto simp: redeemQRCode_def split: if_splits option.splits)
  from find_split [OF f [unfolded findUnredeemed_def]] obtain xs ys
    where st: "st = xs @ q # ys" and q: "code q = c" "status q = UNREDEEMED"
      and xs: "\<forall>x\<in>set xs. \<not> (code x = c \<and> status x = UNREDEEMED)" by blast
  from ids have "\<forall>x\<in>set xs. id_doc x \<noteq> id_doc q"
    unfolding st unique_ids_def by (blast dest: distinct_map_prefix)
  then have "save (markRedeemed u now q) now st
      = Some (xs @ (markRedeemed u now q)\<lparr>updatedAt := now\<rparr> # ys)"
    unfolding save_def st
    by (subst updateOne_split) (auto simp: markRedeemed_def)
  with ok f q have "st' = xs @ (markRedeemed u now q)\<lparr>updatedAt := now\<rparr> # ys"
    and "info = \<lparr>info_id = id_doc q, info_code = c, info_batchId = batchId q,
                      info_redeemedAt = Some now\<rparr>"
    by (auto simp: redeemQRCode_def Let_def markRedeemed_def split: if_splits)
  with st q xs show ?thesis by blast
qed

lemma redeem_succeeds:
  assumes "isValidQRCode c" and "list_ex (\<lambda>r. code r = c \<and> status r = UNREDEEMED) st"
  shows "\<exists>info st'. redeemQRCode u now c st = (Ok info, st')"
proof -
  from assms(2) obtain q where f: "findUnredeemed c st = Some q"
    using findUnredeemed_None_iff [of c st] by auto
  from save_found_Some [OF findUnredeemed_in_set [OF f]] obtain st'
    where "save (markRedeemed u now q) now st = Some st'" by blast
  with f assms(1) show ?thesis
    by (simp add: redeemQRCode_def isValidQRCode_nonempty Let_def)
qed

lemma redeem_no_match:
  assumes "isValidQRCode c" and "\<not> list_ex (\<lambda>r. code r = c \<and> status r = UNREDEEMED) st"
  shows "redeemQRCode u now c st = (NotFound, st)"
proof -
  from assms(2) have "findUnredeemed c st = None" by (simp add: findUnredeemed_None_iff)
  with assms(1) show ?thesis
    by (simp add: redeemQRCode_def isValidQRCode_nonempty)
qed

text \<open>
  The handler is its two round trips run back to back.
\<close>

lemma redeemQRCode_as_steps:
  "redeemQRCode u now c st =
     (case run_schedule [(u, now, c)] [0, 0] ([Start], st) of
        (hs, st') \<Rightarrow> (case hd hs of Finished r \<Rightarrow> (r, st') | _ \<Rightarrow> (ServerError, st')))"
  by (simp add: redeemQRCode_def step_findOne_def step_save_def Let_def
      split: option.splits)

text \<open>
  C1. Lookup and transition are claimed to be one atomic conditional store operation,
  so that of several concurrent redemptions of one code exactly one succeeds and the
  others get NotFound. The handler makes two round trips, \<open>findOne\<close> and then \<open>save\<close>.
  With two handlers on the code \<open>deadbeef12\<close>, started by users 1 and 2, and the
  schedule in which both read before either writes, both answer with success and the
  stored \<open>redeemedBy\<close> is the second writer.
\<close>

theorem concurrent_redeem_both_succeed:
  "run_schedule [(demo_user 1, 200, ''deadbeef12''), (demo_user 2, 201, ''deadbeef12'')]
      [0, 1, 0, 1] ([Start, Start], [demo_doc 1 ''deadbeef12''])
   = ([Finished (Ok \<lparr>info_id = 1, info_code = ''deadbeef12'',
                     info_batchId = ''batch_1_00000000'', info_redeemedAt = Some 200\<rparr>),
       Finished (Ok \<lparr>info_id = 1, info_code = ''deadbeef12'',
                     info_batchId = ''batch_1_00000000'', info_redeemedAt = Some 201\<rparr>)],
      [(demo_doc 1 ''deadbeef12'')\<lparr>status := REDEEMED, redeemedAt := Some 201,
          redeemedBy := Some 2, updatedAt := 201\<rparr>])"
  by (simp add: step_findOne_def step_save_def valid_deadbeef12 findUnredeemed_def
      demo_doc_def demo_user_def save_def markRedeemed_def)

text \<open>
  C3, as stated: redemption fails with a validation error exactly when the string does
  not match \<open>^[a-f0-9]{8,20}$\<close>, so uppercase hexadecimal is rejected. The string
  \<open>DEADBEEF12\<close> does not match that pattern, and the handler does not reject it: it
  looks the code up and answers NotFound on the empty store.
\<close>

theorem redeemQRCode_uppercase_accepted:
  "\<not> matches_lower_hex_8_20 ''DEADBEEF12''
   \<and> redeemQRCode \<lparr>id_user = 1, userType = APP_USER, email = ''a@b.c''\<rparr> 5 ''DEADBEEF12'' []
       = (NotFound, [])"
  by (simp add: matches_lower_hex_8_20_def is_lower_hex_def redeemQRCode_def
      isValidQRCode_iff matches_hex_ci_8_20_def is_upper_hex_def findUnredeemed_def)

text \<open>
  C3, amended: redemption answers with the validation error (400) exactly when the
  string is not 8 to 20 hexadecimal digits of either case, and then the store is left
  as it was, whatever it holds.
\<close>

theorem redeemQRCode_BadRequest_iff:
  "(fst (redeemQRCode u now c st) = BadRequest) = (\<not> matches_hex_ci_8_20 c)
   \<and> (redeemQRCode u now c st = (BadRequest, st)) = (\<not> matches_hex_ci_8_20 c)"
  by (auto simp: redeemQRCode_def isValidQRCode_iff [symmetric] Let_def
      dest: isValidQRCode_nonempty split: option.splits)

text \<open>
  C4, as stated: a well-formed code is answered with NotFound when its record is
  inactive. The handler never reads \<open>isActive\<close>: an inactive, unredeemed record is
  redeemed.
\<close>

theorem redeem_inactive_counterexample:
  "redeemQRCode (demo_user 1) 200 ''deadbeef12''
     [(demo_doc 1 ''deadbeef12'')\<lparr>isActive := False\<rparr>]
   = (Ok \<lparr>info_id = 1, info_code = ''deadbeef12'', info_batchId = ''batch_1_00000000'',
          info_redeemedAt = Some 200\<rparr>,
      [(demo_doc 1 ''deadbeef12'')\<lparr>isActive := False, status := REDEEMED,
          redeemedAt := Some 200, redeemedBy := Some 1, updatedAt := 200\<rparr>])"
  by (simp add: redeemQRCode_def valid_deadbeef12 findUnredeemed_def
      demo_doc_def demo_user_def save_def markRedeemed_def)

text \<open>
  C4, amended: for a well-formed code, redemption answers NotFound exactly when no
  stored record has that code with status unredeemed (the code is unknown or already
  redeemed), whatever \<open>isActive\<close> says; the answer is the same in both cases and the
  store is unchanged.
\<close>

theorem redeemQRCode_NotFound_iff:
  assumes "isValidQRCode c"
  shows "(fst (redeemQRCode u now c st) = NotFound)
           = (\<not> list_ex (\<lambda>r. code r = c \<and> status r = UNREDEEMED) st)
       \<and> (redeemQRCode u now c st = (NotFound, st))
           = (\<not> list_ex (\<lambda>r. code r = c \<and> status r = UNREDEEMED) st)"
proof (cases "list_ex (\<lambda>r. code r = c \<and> status r = UNREDEEMED) st")
  case True
  from redeem_succeeds [OF assms True] obtain info st'
    where "redeemQRCode u now c st = (Ok info, st')" by blast
  with True show ?thesis by simp
next
  case False
  with redeem_no_match [OF assms False] show ?thesis by simp
qed

theorem redeemQRCode_NotFound_iff_witness:
  "isValidQRCode ''deadbeef12''
   \<and> redeemQRCode (demo_user 1) 200 ''deadbeef12''
       [(demo_doc 1 ''deadbeef12'')\<lparr>status := REDEEMED\<rparr>, demo_doc 2 ''0123456789ab'']
     = (NotFound, [(demo_doc 1 ''deadbeef12'')\<lparr>status := REDEEMED\<rparr>, demo_doc 2 ''0123456789ab''])"
  using redeemQRCode_NotFound_iff [OF valid_deadbeef12, of "demo_user 1" 200
      "[(demo_doc 1 ''deadbeef12'')\<lparr>status := REDEEMED\<rparr>, demo_doc 2 ''0123456789ab'']"]
  by (simp add: valid_deadbeef12 demo_doc_def)

text \<open>
  C6. In a store with unique codes and ids that holds an unredeemed record of a valid
  code, redeeming the code twice in sequence gives success and then NotFound.
\<close>

theorem redeem_twice_in_sequence:
  assumes codes: "unique_codes st" and ids: "unique_ids st"
    and valid: "isValidQRCode c"
    and ex: "list_ex (\<lambda>r. code r = c \<and> status r = UNREDEEMED) st"
  shows "\<exists>info st1. redeemQRCode u1 t1 c st = (Ok info, st1)
           \<and> redeemQRCode u2 t2 c st1 = (NotFound, st1)"
proof -
  from redeem_succeeds [OF valid ex] obtain info st1
    where ok: "redeemQRCode u1 t1 c st = (Ok info, st1)" by blast
  from redeem_Ok_split [OF ids ok] obtain xs q ys
    where st: "st = xs @ q # ys" and q: "code q = c"
      and xs: "\<forall>x\<in>set xs. \<not> (code x = c \<and> status x = UNREDEEMED)"
      and st1: "st1 = xs @ (markRedeemed u1 t1 q)\<lparr>updatedAt := t1\<rparr> # ys" by blast
  from codes have "distinct (map code (xs @ q # ys))" by (simp add: unique_codes_def st)
  then have "\<forall>y\<in>set ys. code y \<noteq> code q"
    by (blast dest: distinct_map_suffix)
  with q have ys: "\<forall>y\<in>set ys. code y \<noteq> c" by simp
  have "\<not> list_ex (\<lambda>r. code r = c \<and> status r = UNREDEEMED) st1"
    using xs ys by (auto simp: st1 list_ex_iff markRedeemed_def)
  from redeem_no_match [OF valid this] have "redeemQRCode u2 t2 c st1 = (NotFound, st1)" .
  with ok show ?thesis by blast
qed

theorem redeem_twice_in_sequence_witness:
  "\<exists>info st1. redeemQRCode (demo_user 1) 200 ''deadbeef12''
        [demo_doc 1 ''deadbeef12'', demo_doc 2 ''0123456789ab''] = (Ok info, st1)
     \<and> redeemQRCode (demo_user 2) 300 ''deadbeef12'' st1 = (NotFound, st1)"
  by (rule redeem_twice_in_sequence)
     (simp_all add: unique_codes_def unique_ids_def demo_doc_def valid_deadbeef12)

text \<open>
  C9, as stated: a successful redemption changes only \<open>status\<close>, \<open>redeemedAt\<close> and
  \<open>redeemedBy\<close> of the matched record. The schema keeps timestamps, so \<open>save\<close> also
  moves \<open>updatedAt\<close>: here from 100 to the time of the redemption, 200.
\<close>

theorem redeem_refreshes_updatedAt:
  "updatedAt (demo_doc 1 ''deadbeef12'') = 100
   \<and> redeemQRCode (demo_user 1) 200 ''deadbeef12'' [demo_doc 1 ''deadbeef12'']
     = (Ok \<lparr>info_id = 1, info_code = ''deadbeef12'', info_batchId = ''batch_1_00000000'',
            info_redeemedAt = Some 200\<rparr>,
        [\<lparr>id_doc = 1, code = ''deadbeef12'', status = REDEEMED, generatedBy = 7,
          batchId = ''batch_1_00000000'', quantity = 2, batchNumber = 1, isActive = True,
          redeemedAt = Some 200, redeemedBy = Some 1, metadata = [],
          createdAt = 100, updatedAt = 200\<rparr>])"
  by (simp add: redeemQRCode_def valid_deadbeef12 findUnredeemed_def
      demo_doc_def demo_user_def save_def markRedeemed_def)

text \<open>
  C9, amended: a successful redemption, in a store with unique ids, replaces the
  matched record in place by the same record with \<open>status\<close>, \<open>redeemedAt\<close>,
  \<open>redeemedBy\<close> and the store's \<open>updatedAt\<close> set; every other field of it (id, code,
  generatedBy, batchId, quantity, batchNumber, isActive, metadata, createdAt) is as
  before, and the records before and after it are the same.
\<close>

theorem redeem_frame:
  assumes ids: "unique_ids st"
    and ok: "redeemQRCode u now c st = (Ok info, st')"
  shows "\<exists>xs q ys. st = xs @ q # ys \<and> code q = c \<and> status q = UNREDEEMED
           \<and> st' = xs @ q\<lparr>status := REDEEMED, redeemedAt := Some now,
                            redeemedBy := Some (id_user u), updatedAt := now\<rparr> # ys"
proof -
  from redeem_Ok_split [OF ids ok] obtain xs q ys
    where st: "st = xs @ q # ys" and q: "code q = c" "status q = UNREDEEMED"
      and st1: "st' = xs @ (markRedeemed u now q)\<lparr>updatedAt := now\<rparr> # ys" by blast
  show ?thesis
    apply (rule exI [of _ xs], rule exI [of _ q], rule exI [of _ ys])
    apply (simp add: st st1 q markRedeemed_def)
    done
qed

theorem redeem_frame_witness:
  "\<exists>xs q ys. [demo_doc 1 ''deadbeef12'', demo_doc 2 ''0123456789ab''] = xs @ q # ys
     \<and> code q = ''0123456789ab'' \<and> status q = UNREDEEMED
     \<and> [demo_doc 1 ''deadbeef12'',
         (demo_doc 2 ''0123456789ab'')\<lparr>status := REDEEMED, redeemedAt := Some 200,
             redeemedBy := Some 1, updatedAt := 200\<rparr>]
       = xs @ q\<lparr>status := REDEEMED, redeemedAt := Some 200,
                  redeemedBy := Some (id_user (demo_user 1)), updatedAt := 200\<rparr> # ys"
proof -
  have v: "isValidQRCode ''0123456789ab''"
    by (simp add: isValidQRCode_iff matches_hex_ci_8_20_def is_lower_hex_def)
  have r: "redeemQRCode (demo_user 1) 200 ''0123456789ab''
       [demo_doc 1 ''deadbeef12'', demo_doc 2 ''0123456789ab'']
     = (Ok \<lparr>info_id = 2, info_code = ''0123456789ab'', info_batchId = ''batch_1_00000000'',
            info_redeemedAt = Some 200\<rparr>,
        [demo_doc 1 ''deadbeef12'',
         (demo_doc 2 ''0123456789ab'')\<lparr>status := REDEEMED, redeemedAt := Some 200,
             redeemedBy := Some 1, updatedAt := 200\<rparr>])"
    by (simp add: redeemQRCode_def v findUnredeemed_def demo_doc_def save_def markRedeemed_def
        demo_user_def)
  have i: "unique_ids [demo_doc 1 ''deadbeef12'', demo_doc 2 ''0123456789ab'']"
    by (simp add: unique_ids_def demo_doc_def)
  show ?thesis by (rule redeem_frame [OF i r])
qed

section \<open>Properties of the generator\<close>

lemma hex_digit_lower: "d < 16 \<Longrightarrow> is_lower_hex (hex_digit d)"
proof -
  assume "d < 16"
  then have "d = 0 \<or> d = 1 \<or> d = 2 \<or> d = 3 \<or> d = 4 \<or> d = 5 \<or> d = 6 \<or> d = 7
      \<or> d = 8 \<or> d = 9 \<or> d = 10 \<or> d = 11 \<or> d = 12 \<or> d = 13 \<or> d = 14 \<or> d = 15"
    by arith
  then show ?thesis
    by (elim disjE) (simp_all add: hex_digit_def is_lower_hex_def)
qed

lemma length_toHex: "length (toHex bs) = 2 * length bs"
  by (induction bs) (simp_all add: toHex_def)

lemma toHex_lower: "list_all is_lower_hex (toHex bs)"
proof (induction bs)
  case Nil
  show ?case by (simp add: toHex_def)
next
  case (Cons b bs)
  have "unat b < 256" using unsigned_less [of b, where ?'a = nat] by simp
  then have "unat b div 16 < 16" by simp
  moreover have "unat b mod 16 < 16" by simp
  ultimately show ?case using Cons
    by (simp add: toHex_def hex_digit_lower)
qed

lemma length_candidate: "length (candidate src len) = len"
  by (simp add: candidate_def length_toHex randomBytes_def) 

lemma candidate_lower: "list_all is_lower_hex (candidate src len)"
  using toHex_lower [of "randomBytes src ((len + 1) div 2)"]
  by (auto simp: candidate_def list_all_iff dest: in_set_takeD)

lemma loop_done:
  "\<not> a < maxAttempts \<Longrightarrow> generateUniqueQRCode_loop st src len a = None"
  by (subst generateUniqueQRCode_loop.simps) simp

lemma loop_step:
  "a < maxAttempts \<Longrightarrow>
     generateUniqueQRCode_loop st src len a =
       (if find (\<lambda>r. code r = candidate (src a) len) st = None
        then Some (candidate (src a) len)
        else generateUniqueQRCode_loop st src len (a + 1))"
  by (subst generateUniqueQRCode_loop.simps) (simp add: Let_def)

lemma map_option_append_Nil: "map_option ((@) []) x = x"
  by (cases x) simp_all

lemma loop_Some:
  "generateUniqueQRCode_loop st src len a = Some c \<Longrightarrow>
     length c = len \<and> list_all is_lower_hex c \<and> find (\<lambda>r. code r = c) st = None"
proof (induction st src len a rule: generateUniqueQRCode_loop.induct)
  case (1 st src len attempts)
  show ?case
  proof (cases "attempts < maxAttempts")
    case False
    with "1.prems" show ?thesis by (simp add: loop_done)
  next
    case True
    show ?thesis
    proof (cases "find (\<lambda>r. code r = candidate (src attempts) len) st = None")
      case free: True
      with True "1.prems" have "c = candidate (src attempts) len"
        by (simp add: loop_step)
      with free show ?thesis by (simp add: length_candidate candidate_lower)
    next
      case taken: False
      with True "1.prems" have "generateUniqueQRCode_loop st src len (attempts + 1) = Some c"
        by (simp add: loop_step)
      with "1.IH" [OF True refl taken] show ?thesis by simp
    qed
  qed
qed

lemma loop_first_free:
  "a < maxAttempts \<Longrightarrow> find (\<lambda>r. code r = candidate (src a) len) st = None \<Longrightarrow>
     generateUniqueQRCode_loop st src len a = Some (candidate (src a) len)"
  by (simp add: loop_step)

lemma loop_exhausted:
  "(\<And>k. k < maxAttempts \<Longrightarrow> find (\<lambda>r. code r = candidate (src k) len) st \<noteq> None) \<Longrightarrow>
     generateUniqueQRCode_loop st src len a = None"
proof (induction st src len a rule: generateUniqueQRCode_loop.induct)
  case (1 st src len attempts)
  show ?case
  proof (cases "attempts < maxAttempts")
    case False
    then show ?thesis by (simp add: loop_done)
  next
    case True
    from "1.prems" [OF True] have taken: "find (\<lambda>r. code r = candidate (src attempts) len) st \<noteq> None" .
    from "1.IH" [OF True refl taken "1.prems"]
    have "generateUniqueQRCode_loop st src len (attempts + 1) = None" by simp
    with True taken show ?thesis by (simp add: loop_step)
  qed
qed

lemma promise_all_append:
  "promise_all (ps @ qs) =
     (case promise_all ps of None \<Rightarrow> None
      | Some xs \<Rightarrow> map_option ((@) xs) (promise_all qs))"
proof (induction ps rule: promise_all.induct)
  case 1
  show ?case by (cases "promise_all qs") simp_all
next
  case (2 ps)
  show ?case by simp
next
  case (3 x ps)
  then show ?case by (cases "promise_all ps"; cases "promise_all qs") simp_all
qed

lemma promise_all_Some_iff: "(promise_all ps = Some xs) = (ps = map Some xs)"
proof (induction ps arbitrary: xs rule: promise_all.induct)
  case 1
  show ?case by auto
next
  case (2 ps)
  show ?case by (cases xs) auto
next
  case (3 x ps)
  then show ?case by (cases xs) auto
qed

lemma promise_all_None_iff: "(promise_all ps = None) = (None \<in> set ps)"
  by (induction ps rule: promise_all.induct) auto

lemma group_slots:
  "map (\<lambda>k. g (i + k)) [0..<n] = map g [i..<i + n]"
proof -
  have "map g [i..<i + n] = map g (map (\<lambda>k. k + i) [0..<n])"
    by (simp add: map_add_upt add.commute)
  then show ?thesis by (simp add: comp_def add.commute)
qed

lemma generateMultiple_loop_eq:
  "generateMultiple_loop st rnd count len i codes =
     map_option ((@) codes)
       (promise_all (map (\<lambda>k. generateUniqueQRCode st (rnd k) len) [i..<count]))"
proof (induction st rnd count len i codes rule: generateMultiple_loop.induct)
  case (1 st rnd count len i codes)
  let ?g = "\<lambda>k. generateUniqueQRCode st (rnd k) len"
  show ?case
  proof (cases "i < count")
    case False
    then show ?thesis by (subst generateMultiple_loop.simps) simp
  next
    case True
    define cur where "cur = min batchSize (count - i)"
    have "i + cur \<le> count" using True by (simp add: cur_def)
    then have "[i..<count] = [i..<(i + cur) + (count - (i + cur))]" by simp
    also have "\<dots> = [i..<i + cur] @ [i + cur..<(i + cur) + (count - (i + cur))]"
      by (rule upt_add_eq_append) simp
    finally have split: "[i..<count] = [i..<i + cur] @ [i + cur..<count]"
      using \<open>i + cur \<le> count\<close> by simp
    have rest: "[i + cur..<count] = [i + batchSize..<count]"
      by (auto simp: cur_def min_def)
    have grp: "map (\<lambda>k. ?g (i + k)) [0..<cur] = map ?g [i..<i + cur]"
      by (rule group_slots)
    show ?thesis
    proof (cases "promise_all (map ?g [i..<i + cur])")
      case None
      with True show ?thesis
        by (subst generateMultiple_loop.simps)
           (simp add: Let_def cur_def [symmetric] grp split promise_all_append)
    next
      case (Some batchCodes)
      have pa: "promise_all (map (\<lambda>k. ?g (i + k)) [0..<cur]) = Some batchCodes"
        using Some grp by simp
      have "generateMultiple_loop st rnd count len (i + batchSize) (codes @ batchCodes) =
          map_option ((@) (codes @ batchCodes)) (promise_all (map ?g [i + batchSize..<count]))"
        by (rule "1.IH" [OF True cur_def refl pa])
      with True Some show ?thesis
        by (subst generateMultiple_loop.simps,
            cases "promise_all (map ?g [i + batchSize..<count])")
           (simp_all add: Let_def cur_def [symmetric] grp split promise_all_append rest)
    qed
  qed
qed

lemma generateMultiple_eq:
  "generateMultipleUniqueQRCodes st rnd count len =
     promise_all (map (\<lambda>k. generateUniqueQRCode st (rnd k) len) [0..<count])"
  by (simp add: generateMultipleUniqueQRCodes_def generateMultiple_loop_eq map_option_append_Nil)


section \<open>Properties of the bulk write\<close>

lemma insert_unordered_append:
  "insert_unordered now ds st = (ins, st') \<Longrightarrow> st' = st @ ins"
proof (induction ds arbitrary: st ins st')
  case Nil
  then show ?case by simp
next
  case (Cons d ds)
  show ?case
  proof (cases "find (\<lambda>r. code r = new_code d) st = None")
    case True
    obtain ins1 st1 where r: "insert_unordered now ds (st @ [make_doc (fresh_id st) now d]) = (ins1, st1)"
      by (cases "insert_unordered now ds (st @ [make_doc (fresh_id st) now d])")
    from Cons.IH [OF r] have "st1 = (st @ [make_doc (fresh_id st) now d]) @ ins1" .
    with Cons.prems True r show ?thesis by (auto simp: Let_def)
  next
    case False
    with Cons.prems have "insert_unordered now ds st = (ins, st')" by simp
    from Cons.IH [OF this] show ?thesis .
  qed
qed

lemma insert_unordered_subseq:
  "insert_unordered now ds st = (ins, st') \<Longrightarrow>
     \<exists>ds'. subseq ds' ds \<and> list_all2 (stored_as now) ins ds'"
proof (induction ds arbitrary: st ins st')
  case Nil
  then show ?case by simp
next
  case (Cons d ds)
  show ?case
  proof (cases "find (\<lambda>r. code r = new_code d) st = None")
    case True
    let ?r = "make_doc (fresh_id st) now d"
    obtain ins1 st1 where r: "insert_unordered now ds (st @ [?r]) = (ins1, st1)"
      by (cases "insert_unordered now ds (st @ [?r])")
    from Cons.IH [OF r] obtain ds' where ds': "subseq ds' ds" "list_all2 (stored_as now) ins1 ds'"
      by blast
    from Cons.prems True r have ins: "ins = ?r # ins1" by (simp add: Let_def)
    have "stored_as now ?r d" by (simp add: stored_as_def make_doc_def)
    with ds' ins have "subseq (d # ds') (d # ds) \<and> list_all2 (stored_as now) ins (d # ds')"
      by simp
    then show ?thesis by blast
  next
    case False
    with Cons.prems have "insert_unordered now ds st = (ins, st')" by simp
    from Cons.IH [OF this] obtain ds' where "subseq ds' ds" "list_all2 (stored_as now) ins ds'"
      by blast
    then have "subseq ds' (d # ds) \<and> list_all2 (stored_as now) ins ds'"
      by (simp add: list_emb_Cons)
    then show ?thesis by blast
  qed
qed

lemma find_code_append:
  "(find (\<lambda>r. code r = c) (st @ [x]) = None) = (find (\<lambda>r. code r = c) st = None \<and> code x \<noteq> c)"
  by (auto simp: find_None_iff)

lemma insert_unordered_all:
  "distinct (map new_code ds) \<Longrightarrow>
   list_all (\<lambda>d. find (\<lambda>r. code r = new_code d) st = None) ds \<Longrightarrow>
   insert_unordered now ds st = (ins, st') \<Longrightarrow>
     list_all2 (stored_as now) ins ds"
proof (induction ds arbitrary: st ins st')
  case Nil
  then show ?case by simp
next
  case (Cons d ds)
  let ?r = "make_doc (fresh_id st) now d"
  from Cons.prems(2) have free: "find (\<lambda>r. code r = new_code d) st = None" by simp
  obtain ins1 st1 where r: "insert_unordered now ds (st @ [?r]) = (ins1, st1)"
    by (cases "insert_unordered now ds (st @ [?r])")
  from Cons.prems(1) have d: "distinct (map new_code ds)" "\<forall>e\<in>set ds. new_code e \<noteq> new_code d"
    by (auto simp: image_iff)
  with Cons.prems(2)
  have "list_all (\<lambda>e. find (\<lambda>r. code r = new_code e) (st @ [?r]) = None) ds"
    by (auto simp: list_all_iff find_code_append make_doc_def)
  from Cons.IH [OF d(1) this r] have "list_all2 (stored_as now) ins1 ds" .
  moreover from Cons.prems(3) free r have "ins = ?r # ins1" by (simp add: Let_def)
  moreover have "stored_as now ?r d" by (simp add: stored_as_def make_doc_def)
  ultimately show ?case by simp
qed

lemma stored_as_field:
  assumes "stored_as now r d"
  shows "code r = new_code d" and "batchNumber r = new_batchNumber d"
    and "batchId r = new_batchId d" and "generatedBy r = new_generatedBy d"
    and "quantity r = new_quantity d" and "status r = UNREDEEMED"
  using assms by (cases r; simp add: stored_as_def make_doc_def)+

lemma stored_as_fields:
  "list_all2 (stored_as now) ins ds \<Longrightarrow>
     map code ins = map new_code ds \<and> map batchNumber ins = map new_batchNumber ds
     \<and> map batchId ins = map new_batchId ds \<and> map generatedBy ins = map new_generatedBy ds
     \<and> map quantity ins = map new_quantity ds \<and> list_all (\<lambda>r. status r = UNREDEEMED) ins"
  by (induction rule: list_all2_induct) (simp_all add: stored_as_field)

lemma sorted_wrt_subseq:
  "subseq xs ys \<Longrightarrow> sorted_wrt P ys \<Longrightarrow> sorted_wrt P xs"
proof (induction rule: list_emb.induct)
  case (list_emb_Nil ys)
  show ?case by simp
next
  case (list_emb_Cons xs ys y)
  then show ?case by simp
next
  case (list_emb_Cons2 x y xs ys)
  from list_emb_Cons2.hyps(2) have "set xs \<subseteq> set ys" by (rule list_emb_set [THEN subsetI]) auto
  with list_emb_Cons2 show ?case by auto
qed


section \<open>Properties of bulk generation\<close>


lemma qrCodeDocs_fields:
  "map new_code (qrCodeDocs g b q md codes) = codes"
  "map new_batchNumber (qrCodeDocs g b q md codes) = [1..<Suc (length codes)]"
  "map new_batchId (qrCodeDocs g b q md codes) = replicate (length codes) b"
  "map new_quantity (qrCodeDocs g b q md codes) = replicate (length codes) q"
proof -
  show "map new_code (qrCodeDocs g b q md codes) = codes"
    by (simp add: qrCodeDocs_def comp_def case_prod_unfold enumerate_eq_zip)
  have "map new_batchNumber (qrCodeDocs g b q md codes)
      = map (Suc \<circ> fst) (zip [0..<length codes] codes)"
    by (simp add: qrCodeDocs_def comp_def case_prod_unfold enumerate_eq_zip)
  also have "\<dots> = map Suc (map fst (zip [0..<length codes] codes))"
    by (simp only: map_map)
  also have "\<dots> = map Suc [0..<length codes]" by simp
  also have "\<dots> = [1..<Suc (length codes)]" by (simp add: map_Suc_upt)
  finally show "map new_batchNumber (qrCodeDocs g b q md codes) = [1..<Suc (length codes)]" .
  show "map new_batchId (qrCodeDocs g b q md codes) = replicate (length codes) b"
    by (simp add: qrCodeDocs_def comp_def case_prod_unfold map_replicate_const)
  show "map new_quantity (qrCodeDocs g b q md codes) = replicate (length codes) q"
    by (simp add: qrCodeDocs_def comp_def case_prod_unfold map_replicate_const)
qed

lemma length_qrCodeDocs: "length (qrCodeDocs g b q md codes) = length codes"
  by (simp add: qrCodeDocs_def)

lemma generateUniqueQRCode_Some:
  "generateUniqueQRCode st src len = Some c \<Longrightarrow>
     length c = len \<and> list_all is_lower_hex c \<and> find (\<lambda>r. code r = c) st = None"
  unfolding generateUniqueQRCode_def by (rule loop_Some)

lemma generateMultiple_Some:
  assumes "generateMultipleUniqueQRCodes st rnd count len = Some codes"
  shows "length codes = count"
    and "list_all (\<lambda>c. length c = len \<and> list_all is_lower_hex c
                        \<and> find (\<lambda>r. code r = c) st = None) codes"
proof -
  let ?g = "\<lambda>k. generateUniqueQRCode st (rnd k) len"
  from assms have m: "map ?g [0..<count] = map Some codes"
    by (simp add: generateMultiple_eq promise_all_Some_iff)
  then have "length (map ?g [0..<count]) = length (map Some codes)" by simp
  then show len: "length codes = count" by simp
  define P where "P = (\<lambda>c. length c = len \<and> list_all is_lower_hex c
                        \<and> find (\<lambda>r. code r = c) st = None)"
  have "list_all P codes"
    unfolding list_all_length
  proof (intro allI impI)
    fix n assume n: "n < length codes"
    from m have "map ?g [0..<count] ! n = map Some codes ! n" by simp
    with n len have "?g n = Some (codes ! n)" by simp
    from generateUniqueQRCode_Some [OF this]
    show "P (codes ! n)" by (simp add: P_def)
  qed
  then show "list_all (\<lambda>c. length c = len \<and> list_all is_lower_hex c
                        \<and> find (\<lambda>r. code r = c) st = None) codes"
    by (simp add: P_def)
qed

lemma generateMultiple_None:
  "k < count \<Longrightarrow> generateUniqueQRCode st (rnd k) len = None \<Longrightarrow>
     generateMultipleUniqueQRCodes st rnd count len = None"
  by (force simp: generateMultiple_eq promise_all_None_iff image_iff)

text \<open>The store after a generation request: nothing new, or an unordered write of the documents.\<close>

lemma generateBulk_store:
  "snd (generateBulkQRCodes env u body st) = st
   \<or> (\<exists>codes ins ds'.
        length codes = body_quantity body
        \<and> snd (generateBulkQRCodes env u body st) = st @ ins
        \<and> subseq ds' (qrCodeDocs (id_user u)
              (generateBatchId (env_now env) (env_batch_random env)) (body_quantity body)
              (case body_metadata body of None \<Rightarrow> [] | Some m \<Rightarrow> m) codes)
        \<and> list_all2 (stored_as (env_now env)) ins ds')"
proof (cases "validateQRCodeGeneration body")
  case False
  then show ?thesis by (simp add: generateBulkQRCodes_def)
next
  case True
  let ?len = "case body_length body of None \<Rightarrow> 12 | Some l \<Rightarrow> l"
  let ?docs = "\<lambda>codes. qrCodeDocs (id_user u)
      (generateBatchId (env_now env) (env_batch_random env)) (body_quantity body)
      (case body_metadata body of None \<Rightarrow> [] | Some m \<Rightarrow> m) codes"
  from True have q: "\<not> body_quantity body > 10000"
    by (simp add: validateQRCodeGeneration_def)
  show ?thesis
  proof (cases "generateMultipleUniqueQRCodes st (env_code_random env) (body_quantity body) ?len")
    case None
    with True q show ?thesis by (simp add: generateBulkQRCodes_def Let_def)
  next
    case (Some codes)
    obtain ins st' where iu:
      "insert_unordered (env_now env) (filter schema_valid (?docs codes)) st = (ins, st')"
      by (cases "insert_unordered (env_now env) (filter schema_valid (?docs codes)) st")
    from insert_unordered_append [OF iu] have st': "st' = st @ ins" .
    from insert_unordered_subseq [OF iu] obtain ds'
      where ds': "subseq ds' (filter schema_valid (?docs codes))"
        "list_all2 (stored_as (env_now env)) ins ds'" by blast
    have "subseq (filter schema_valid (?docs codes)) (?docs codes)" by simp
    with ds'(1) have sub: "subseq ds' (?docs codes)" by (rule subseq_order.trans)
    from True q Some iu st'
    have "snd (generateBulkQRCodes env u body st) = st @ ins"
      by (simp add: generateBulkQRCodes_def Let_def insertMany_def)
    with generateMultiple_Some(1) [OF Some] sub ds'(2) show ?thesis by blast
  qed
qed



lemma subseq_replicate_all:
  "subseq xs ys \<Longrightarrow> list_all P ys \<Longrightarrow> list_all P xs"
  by (auto simp: list_all_iff dest: list_emb_set)

text \<open>
  C2, amended: when the batch id of a generation request for Q codes is not yet in
  the store, the batch numbers of the stored records of that batch, in insertion
  order, are strictly increasing (so pairwise distinct) values between 1 and Q. They
  are exactly 1..Q if and only if Q records of the batch are stored.
\<close>

theorem batch_numbers_after_generation:
  assumes fresh: "list_all (\<lambda>r. batchId r \<noteq> generateBatchId (env_now env) (env_batch_random env)) st"
  shows "let bid = generateBatchId (env_now env) (env_batch_random env);
             nums = batch_numbers bid (snd (generateBulkQRCodes env u body st));
             q = body_quantity body
         in sorted_wrt (<) nums \<and> list_all (\<lambda>n. 1 \<le> n \<and> n \<le> q) nums
            \<and> (nums = [1..<Suc q]) = (length nums = q)"
proof -
  let ?bid = "generateBatchId (env_now env) (env_batch_random env)"
  let ?st' = "snd (generateBulkQRCodes env u body st)"
  from fresh have old: "filter (\<lambda>r. batchId r = ?bid) st = []"
    by (auto simp: list_all_iff filter_empty_conv)
  from generateBulk_store [of env u body st]
  show ?thesis
  proof (elim disjE exE conjE)
    assume "?st' = st"
    with old show ?thesis by (auto simp: batch_numbers_def Let_def)
  next
    fix codes ins ds'
    let ?docs = "qrCodeDocs (id_user u) ?bid (body_quantity body)
        (case body_metadata body of None \<Rightarrow> [] | Some m \<Rightarrow> m) codes"
    assume len: "length codes = body_quantity body"
      and st': "?st' = st @ ins"
      and sub: "subseq ds' ?docs"
      and stored: "list_all2 (stored_as (env_now env)) ins ds'"
    from stored_as_fields [OF stored]
    have bn: "map batchNumber ins = map new_batchNumber ds'"
      and bi: "map batchId ins = map new_batchId ds'" by simp_all
    have "list_all (\<lambda>b. b = ?bid) (map new_batchId ?docs)"
      by (simp add: qrCodeDocs_fields list_all_iff)
    moreover from sub have "subseq (map new_batchId ds') (map new_batchId ?docs)"
      by (rule subseq_map)
    ultimately have "list_all (\<lambda>b. b = ?bid) (map batchId ins)"
      unfolding bi by (rule subseq_replicate_all [rotated])
    then have "filter (\<lambda>r. batchId r = ?bid) ins = ins"
      by (simp add: list_all_iff)
    with old st' bn have nums: "batch_numbers ?bid ?st' = map new_batchNumber ds'"
      by (simp add: batch_numbers_def)
    from sub have "subseq (map new_batchNumber ds') (map new_batchNumber ?docs)"
      by (rule subseq_map)
    then have s: "subseq (batch_numbers ?bid ?st') [1..<Suc (body_quantity body)]"
      by (simp add: nums qrCodeDocs_fields len)
    have "sorted_wrt (<) [1..<Suc (body_quantity body)]" by (rule sorted_wrt_upt)
    with s have c1: "sorted_wrt (<) (batch_numbers ?bid ?st')" by (rule sorted_wrt_subseq)
    have "list_all (\<lambda>n. 1 \<le> n \<and> n \<le> body_quantity body) [1..<Suc (body_quantity body)]"
      by (auto simp: list_all_iff)
    with s have c2: "list_all (\<lambda>n. 1 \<le> n \<and> n \<le> body_quantity body) (batch_numbers ?bid ?st')"
      by (rule subseq_replicate_all)
    have c3: "(batch_numbers ?bid ?st' = [1..<Suc (body_quantity body)])
        = (length (batch_numbers ?bid ?st') = body_quantity body)"
      using subseq_same_length [OF s] by auto
    from c1 c2 c3 show ?thesis by (simp add: Let_def)
  qed
qed

lemma upt_0_3: "[0..<3] = [0, 1, 2::nat]"
  by code_simp

lemma upt_0_4: "[0..<4] = [0, 1, 2, 3::nat]"
  by code_simp

lemma upt_0_5: "[0..<5] = [0, 1, 2, 3, 4::nat]"
  by code_simp

lemma toString36_1000: "toString36 1000 = ''rs''"
  by (simp add: toString36.simps digit36_def)

lemma demo_batchId: "generateBatchId 1000 (\<lambda>i. 0) = ''batch_rs_00000000''"
  by (simp add: generateBatchId_def toString36_1000 toHex_def randomBytes_def hex_digit_def
      upt_0_4)

lemma candidate_demo_8:
  "candidate (demo_random k a) 8 = (if k = 2 then ''11111111'' else ''00000000'')"
  by (simp add: candidate_def toHex_def randomBytes_def hex_digit_def demo_random_def
      upt_0_4)

lemma demo_generate_free:
  "find (\<lambda>r. code r = candidate (src 0) len) st = None \<Longrightarrow>
     generateUniqueQRCode st src len = Some (candidate (src 0) len)"
  by (simp add: generateUniqueQRCode_def loop_step maxAttempts_def)

text \<open>
  C2, as stated: the batch numbers of the K persisted records are 1..K. With three
  slots of which the first two draw the same candidate, the unordered write drops the
  second document; two records are stored and the batch keeps the numbers 1 and 3,
  assigned before the write, whether or not the store library then makes the request
  fail.
\<close>

theorem generation_with_duplicate_leaves_gap:
  "generateBulkQRCodes (demo_env demo_random False) (demo_user 7)
      \<lparr>body_quantity = 3, body_length = Some 8, body_metadata = None\<rparr> []
   = (Created \<lparr>res_batchId = ''batch_rs_00000000'', res_quantity = 2,
               res_codes = [''00000000'', ''11111111'']\<rparr>,
      [\<lparr>id_doc = 1, code = ''00000000'', status = UNREDEEMED, generatedBy = 7,
        batchId = ''batch_rs_00000000'', quantity = 3, batchNumber = 1,
        isActive = True, redeemedAt = None, redeemedBy = None, metadata = [],
        createdAt = 1000, updatedAt = 1000\<rparr>,
       \<lparr>id_doc = 2, code = ''11111111'', status = UNREDEEMED, generatedBy = 7,
        batchId = ''batch_rs_00000000'', quantity = 3, batchNumber = 3,
        isActive = True, redeemedAt = None, redeemedBy = None, metadata = [],
        createdAt = 1000, updatedAt = 1000\<rparr>])
   \<and> batch_numbers ''batch_rs_00000000''
        (snd (generateBulkQRCodes (demo_env demo_random False) (demo_user 7)
           \<lparr>body_quantity = 3, body_length = Some 8, body_metadata = None\<rparr> [])) = [1, 3]
   \<and> batch_numbers ''batch_rs_00000000''
        (snd (generateBulkQRCodes (demo_env demo_random True) (demo_user 7)
           \<lparr>body_quantity = 3, body_length = Some 8, body_metadata = None\<rparr> [])) = [1, 3]"
proof -
  have g: "generateMultipleUniqueQRCodes [] demo_random 3 8
      = Some [''00000000'', ''00000000'', ''11111111'']"
    by (simp add: generateMultiple_eq upt_0_3 demo_generate_free candidate_demo_8)
  show ?thesis
    by (simp add: generateBulkQRCodes_def validateQRCodeGeneration_def demo_env_def g
        demo_batchId demo_user_def qrCodeDocs_def enumerate_eq_zip upt_0_3
        insertMany_def schema_valid_def make_doc_def fresh_id_def Let_def batch_numbers_def)
qed


lemma schema_valid_qrCodeDocs:
  assumes "list_all (\<lambda>c. 8 \<le> length c \<and> length c \<le> 20) codes" and "1 \<le> q"
  shows "filter schema_valid (qrCodeDocs g b q md codes) = qrCodeDocs g b q md codes"
proof -
  have "\<forall>d\<in>set (qrCodeDocs g b q md codes). schema_valid d"
    using assms
    by (auto simp: qrCodeDocs_def schema_valid_def list_all_iff enumerate_eq_zip
        dest: set_zip_rightD)
  then show ?thesis by simp
qed

lemma generateBulk_all_inserted:
  assumes valid: "validateQRCodeGeneration body"
    and gen: "generateMultipleUniqueQRCodes st (env_code_random env) (body_quantity body)
        (case body_length body of None \<Rightarrow> 12 | Some l \<Rightarrow> l) = Some codes"
    and dist: "distinct codes"
  shows "\<exists>new. generateBulkQRCodes env u body st
      = (Created \<lparr>res_batchId = generateBatchId (env_now env) (env_batch_random env),
                  res_quantity = body_quantity body, res_codes = codes\<rparr>, st @ new)
    \<and> list_all2 (stored_as (env_now env)) new
        (qrCodeDocs (id_user u) (generateBatchId (env_now env) (env_batch_random env))
           (body_quantity body) (case body_metadata body of None \<Rightarrow> [] | Some m \<Rightarrow> m) codes)"
proof -
  let ?len = "case body_length body of None \<Rightarrow> 12 | Some l \<Rightarrow> l"
  let ?docs = "qrCodeDocs (id_user u) (generateBatchId (env_now env) (env_batch_random env))
           (body_quantity body) (case body_metadata body of None \<Rightarrow> [] | Some m \<Rightarrow> m) codes"
  from valid have q: "1 \<le> body_quantity body" "\<not> body_quantity body > 10000"
    and l: "8 \<le> ?len" "?len \<le> 20"
    by (auto simp: validateQRCodeGeneration_def split: option.splits)
  note g = generateMultiple_Some [OF gen]
  from g(2) l have "list_all (\<lambda>c. 8 \<le> length c \<and> length c \<le> 20) codes"
    by (auto simp: list_all_iff)
  from schema_valid_qrCodeDocs [OF this q(1)]
  have fv: "filter schema_valid ?docs = ?docs" .
  obtain ins st' where iu: "insert_unordered (env_now env) ?docs st = (ins, st')"
    by (cases "insert_unordered (env_now env) ?docs st")
  from g(2) have "list_all (\<lambda>c. find (\<lambda>r. code r = c) st = None) (map new_code ?docs)"
    by (simp add: qrCodeDocs_fields list_all_iff)
  then have free: "list_all (\<lambda>d. find (\<lambda>r. code r = new_code d) st = None) ?docs"
    by (simp add: list_all_iff)
  from dist have "distinct (map new_code ?docs)" by (simp add: qrCodeDocs_fields)
  from insert_unordered_all [OF this free iu]
  have stored: "list_all2 (stored_as (env_now env)) ins ?docs" .
  then have li: "length ins = length ?docs" by (rule list_all2_lengthD)
  from stored_as_fields [OF stored] have "map code ins = codes"
    by (simp add: qrCodeDocs_fields)
  with valid q gen iu fv li insert_unordered_append [OF iu] g(1)
  have "generateBulkQRCodes env u body st
      = (Created \<lparr>res_batchId = generateBatchId (env_now env) (env_batch_random env),
                  res_quantity = body_quantity body, res_codes = codes\<rparr>, st @ ins)"
    by (simp add: generateBulkQRCodes_def Let_def insertMany_def length_qrCodeDocs)
  with stored show ?thesis by blast
qed

text \<open>
  C7. A request for 5 codes of length 10 whose generator returns five distinct codes
  (no slot is exhausted and no two slots draw the same candidate) is answered with
  those 5 codes, each 10 lowercase hexadecimal characters; the five new records carry
  the codes in generation order, one batch id, and the batch numbers 1 to 5.
\<close>

theorem generate_five_codes_of_length_ten:
  assumes gen: "generateMultipleUniqueQRCodes st (env_code_random env) 5 10 = Some codes"
    and dist: "distinct codes"
  shows "\<exists>new. generateBulkQRCodes env u
        \<lparr>body_quantity = 5, body_length = Some 10, body_metadata = md\<rparr> st
      = (Created \<lparr>res_batchId = generateBatchId (env_now env) (env_batch_random env),
                  res_quantity = 5, res_codes = codes\<rparr>, st @ new)
    \<and> length codes = 5
    \<and> list_all (\<lambda>c. length c = 10 \<and> list_all is_lower_hex c) codes
    \<and> map code new = codes
    \<and> map batchId new = replicate 5 (generateBatchId (env_now env) (env_batch_random env))
    \<and> map batchNumber new = [1, 2, 3, 4, 5]"
proof -
  let ?body = "\<lparr>body_quantity = 5, body_length = Some 10, body_metadata = md\<rparr>"
  have valid: "validateQRCodeGeneration ?body" by (simp add: validateQRCodeGeneration_def)
  from gen have gen': "generateMultipleUniqueQRCodes st (env_code_random env)
      (body_quantity ?body) (case body_length ?body of None \<Rightarrow> 12 | Some l \<Rightarrow> l) = Some codes"
    by simp
  from generateBulk_all_inserted [OF valid gen' dist, of u] obtain new
    where r: "generateBulkQRCodes env u ?body st
      = (Created \<lparr>res_batchId = generateBatchId (env_now env) (env_batch_random env),
                  res_quantity = 5, res_codes = codes\<rparr>, st @ new)"
      and stored: "list_all2 (stored_as (env_now env)) new
        (qrCodeDocs (id_user u) (generateBatchId (env_now env) (env_batch_random env))
           5 (case md of None \<Rightarrow> [] | Some m \<Rightarrow> m) codes)"
    by auto
  note g = generateMultiple_Some [OF gen]
  from g(2) have fmt: "list_all (\<lambda>c. length c = 10 \<and> list_all is_lower_hex c) codes"
    by (auto simp: list_all_iff)
  have "[1..<Suc 5] = [1, 2, 3, 4, 5::nat]" by code_simp
  with stored_as_fields [OF stored] g(1)
  have "map code new = codes"
    and "map batchId new = replicate 5 (generateBatchId (env_now env) (env_batch_random env))"
    and "map batchNumber new = [1, 2, 3, 4, 5]"
    by (simp_all add: qrCodeDocs_fields)
  with r g(1) fmt show ?thesis by (intro exI [of _ new] conjI)
qed

lemma candidate_slot_10:
  "candidate (slot_random 0 a) 10 = ''0000000000''"
  "candidate (slot_random (Suc 0) a) 10 = ''0101010101''"
  "candidate (slot_random 2 a) 10 = ''0202020202''"
  "candidate (slot_random 3 a) 10 = ''0303030303''"
  "candidate (slot_random 4 a) 10 = ''0404040404''"
  by (simp_all add: candidate_def toHex_def randomBytes_def hex_digit_def slot_random_def
      upt_0_5)

lemma slot_generation:
  "generateMultipleUniqueQRCodes [demo_doc 1 ''00000000''] slot_random 5 10
     = Some [''0000000000'', ''0101010101'', ''0202020202'', ''0303030303'', ''0404040404'']"
  by (simp add: generateMultiple_eq upt_0_5 demo_generate_free candidate_slot_10 demo_doc_def)

theorem generate_five_codes_of_length_ten_witness:
  "\<exists>new. generateBulkQRCodes (demo_env slot_random False) (demo_user 7)
        \<lparr>body_quantity = 5, body_length = Some 10, body_metadata = None\<rparr>
        [demo_doc 1 ''00000000'']
      = (Created \<lparr>res_batchId = generateBatchId (env_now (demo_env slot_random False))
                      (env_batch_random (demo_env slot_random False)),
           res_quantity = 5,
           res_codes = [''0000000000'', ''0101010101'', ''0202020202'', ''0303030303'',
                        ''0404040404'']\<rparr>,
         [demo_doc 1 ''00000000''] @ new)
    \<and> length [''0000000000'', ''0101010101'', ''0202020202'', ''0303030303'',
               ''0404040404''] = 5
    \<and> list_all (\<lambda>c. length c = 10 \<and> list_all is_lower_hex c)
          [''0000000000'', ''0101010101'', ''0202020202'', ''0303030303'', ''0404040404'']
    \<and> map code new = [''0000000000'', ''0101010101'', ''0202020202'', ''0303030303'',
                        ''0404040404'']
    \<and> map batchId new = replicate 5 (generateBatchId (env_now (demo_env slot_random False))
                      (env_batch_random (demo_env slot_random False)))
    \<and> map batchNumber new = [1, 2, 3, 4, 5]"
proof -
  have g: "generateMultipleUniqueQRCodes [demo_doc 1 ''00000000'']
      (env_code_random (demo_env slot_random False)) 5 10
     = Some [''0000000000'', ''0101010101'', ''0202020202'', ''0303030303'', ''0404040404'']"
    using slot_generation by (simp add: demo_env_def)
  have d: "distinct [''0000000000'', ''0101010101'', ''0202020202'', ''0303030303'',
      ''0404040404'']" by simp
  show ?thesis by (rule generate_five_codes_of_length_ten [OF g d])
qed

lemma demo_store_fresh:
  "list_all (\<lambda>r. batchId r \<noteq> generateBatchId (env_now (demo_env rnd rej))
       (env_batch_random (demo_env rnd rej))) [demo_doc 1 ''00000000'']"
  by (simp add: demo_env_def demo_batchId demo_doc_def)

theorem batch_numbers_after_generation_witness:
  "let bid = generateBatchId (env_now (demo_env slot_random False))
               (env_batch_random (demo_env slot_random False));
       nums = batch_numbers bid
                (snd (generateBulkQRCodes (demo_env slot_random False) (demo_user 7)
                   \<lparr>body_quantity = 5, body_length = Some 10, body_metadata = None\<rparr>
                   [demo_doc 1 ''00000000'']));
       q = body_quantity \<lparr>body_quantity = 5, body_length = Some 10, body_metadata = None\<rparr>
   in sorted_wrt (<) nums \<and> list_all (\<lambda>n. 1 \<le> n \<and> n \<le> q) nums
      \<and> (nums = [1..<Suc q]) = (length nums = q)"
  by (rule batch_numbers_after_generation [OF demo_store_fresh])

lemma generateBulk_exhausted:
  assumes valid: "validateQRCodeGeneration body"
    and k: "k < body_quantity body"
    and ex: "generateUniqueQRCode st (env_code_random env k)
        (case body_length body of None \<Rightarrow> 12 | Some l \<Rightarrow> l) = None"
  shows "generateBulkQRCodes env u body st = (ServerError, st)"
proof -
  from valid have "\<not> body_quantity body > 10000"
    by (simp add: validateQRCodeGeneration_def)
  with valid generateMultiple_None [where rnd = "env_code_random env", OF k ex] show ?thesis
    by (simp add: generateBulkQRCodes_def Let_def)
qed

lemma demo_slot_0_exhausted:
  "generateUniqueQRCode [demo_doc 1 ''00000000''] (demo_random 0) 8 = None"
  unfolding generateUniqueQRCode_def
  by (rule loop_exhausted) (simp add: candidate_demo_8 demo_doc_def)

text \<open>
  C5, as stated: a slot that finds no free candidate does not abort the other slots.
  In a store that holds \<open>00000000\<close>, slot 0 draws only that code and is exhausted,
  while slot 2 alone would produce \<open>11111111\<close>; the request is answered with a
  server error and nothing is stored.
\<close>

theorem exhausted_slot_aborts_counterexample:
  "generateUniqueQRCode [demo_doc 1 ''00000000''] (demo_random 2) 8 = Some ''11111111''
   \<and> generateBulkQRCodes (demo_env demo_random False) (demo_user 7)
        \<lparr>body_quantity = 3, body_length = Some 8, body_metadata = None\<rparr>
        [demo_doc 1 ''00000000'']
      = (ServerError, [demo_doc 1 ''00000000''])"
proof -
  have "generateUniqueQRCode [demo_doc 1 ''00000000''] (demo_random 2) 8 = Some ''11111111''"
    using demo_generate_free [of "demo_random 2" 8 "[demo_doc 1 ''00000000'']"]
    by (simp add: candidate_demo_8 demo_doc_def)
  moreover have "generateBulkQRCodes (demo_env demo_random False) (demo_user 7)
        \<lparr>body_quantity = 3, body_length = Some 8, body_metadata = None\<rparr>
        [demo_doc 1 ''00000000'']
      = (ServerError, [demo_doc 1 ''00000000''])"
    using demo_slot_0_exhausted
    by (intro generateBulk_exhausted [where k = 0])
       (simp_all add: validateQRCodeGeneration_def demo_env_def)
  ultimately show ?thesis by (rule conjI)
qed

text \<open>
  C5, amended: in a valid generation request, when any one slot exhausts its attempts
  the whole request fails with a server error, no code is reported and the store is
  unchanged.
\<close>

theorem exhausted_slot_aborts_request:
  assumes valid: "validateQRCodeGeneration body"
    and k: "k < body_quantity body"
    and ex: "generateUniqueQRCode st (env_code_random env k)
        (case body_length body of None \<Rightarrow> 12 | Some l \<Rightarrow> l) = None"
  shows "generateBulkQRCodes env u body st = (ServerError, st)"
  using assms by (rule generateBulk_exhausted)

theorem exhausted_slot_aborts_request_witness:
  "generateBulkQRCodes (demo_env demo_random True) (demo_user 7)
        \<lparr>body_quantity = 2, body_length = Some 8, body_metadata = None\<rparr>
        [demo_doc 1 ''00000000'']
      = (ServerError, [demo_doc 1 ''00000000''])"
  by (rule exhausted_slot_aborts_request [where k = 1])
     (simp_all add: validateQRCodeGeneration_def demo_env_def
        generateUniqueQRCode_def loop_exhausted candidate_demo_8 demo_doc_def)


section \<open>Properties of list and delete\<close>

lemma list_query_manufacturer:
  "userType u = MANUFACTURER \<Longrightarrow> query_generatedBy (list_query u rq) = Some (id_user u)"
  by (simp add: list_query_def Let_def)

lemma matches_generatedBy:
  "query_generatedBy q = Some g \<Longrightarrow> matches rx q r \<Longrightarrow> generatedBy r = g"
  by (simp add: matches_def)

lemma getQRCodes_subset:
  "set (listed_records (getQRCodes rx u rq st)) \<subseteq> set (filter (matches rx (list_query u rq)) st)"
proof -
  let ?found = "sort_key (\<lambda>r. - int (createdAt r)) (filter (matches rx (list_query u rq)) st)"
  have "\<And>n m. set (take n (drop m ?found)) \<subseteq> set ?found"
    by (meson set_take_subset set_drop_subset subset_trans)
  moreover have "\<And>m. set (drop m ?found) \<subseteq> set ?found" by (rule set_drop_subset)
  moreover have "set ?found = set (filter (matches rx (list_query u rq)) st)" by simp
  ultimately show ?thesis
    by (auto simp: getQRCodes_def listed_records_def Let_def)
qed

lemma getQRCodes_manufacturer:
  assumes "userType u = MANUFACTURER"
  shows "list_all (\<lambda>r. generatedBy r = id_user u) (listed_records (getQRCodes rx u rq st))"
proof -
  have "\<forall>r\<in>set (filter (matches rx (list_query u rq)) st). generatedBy r = id_user u"
    using matches_generatedBy [OF list_query_manufacturer [OF assms]] by auto
  with getQRCodes_subset [of rx u rq st] show ?thesis
    by (auto simp: list_all_iff)
qed

lemma deleteOne_split:
  "\<forall>x\<in>set xs. \<not> P x \<Longrightarrow> P q \<Longrightarrow> deleteOne P (xs @ q # ys) = xs @ ys"
  by (induction xs) auto

lemma deleteQRCode_manufacturer:
  assumes "userType u = MANUFACTURER"
  shows "foreign_records u (snd (deleteQRCode u i st)) = foreign_records u st"
proof (cases "find (\<lambda>r. id_doc r = i) st")
  case None
  then show ?thesis by (simp add: deleteQRCode_def)
next
  case (Some q)
  from find_split [OF Some] obtain xs ys
    where st: "st = xs @ q # ys" and q: "id_doc q = i" and xs: "\<forall>x\<in>set xs. id_doc x \<noteq> i"
    by blast
  show ?thesis
  proof (cases "generatedBy q = id_user u")
    case False
    with Some assms show ?thesis by (simp add: deleteQRCode_def)
  next
    case True
    from xs q have "deleteOne (\<lambda>r. id_doc r = i) st = xs @ ys"
      unfolding st by (intro deleteOne_split) auto
    with Some True show ?thesis
      by (simp add: deleteQRCode_def foreign_records_def st)
  qed
qed

lemma bulk_delete_query_manufacturer:
  "userType u = MANUFACTURER \<Longrightarrow> bulk_delete_query u body = Some q \<Longrightarrow>
     query_generatedBy q = Some (id_user u)"
  by (auto simp: bulk_delete_query_def Let_def split: option.splits if_splits)

lemma bulkDelete_store:
  "snd (bulkDeleteQRCodes rx u body st) = st
   \<or> (\<exists>q. bulk_delete_query u body = Some q
         \<and> snd (bulkDeleteQRCodes rx u body st) = filter (\<lambda>r. \<not> matches rx q r) st)"
  by (auto simp: bulkDeleteQRCodes_def deleteMany_def Let_def split: option.splits)

lemma bulkDelete_manufacturer:
  assumes "userType u = MANUFACTURER"
  shows "foreign_records u (snd (bulkDeleteQRCodes rx u body st)) = foreign_records u st"
  using bulkDelete_store [of rx u body st]
proof (elim disjE exE conjE)
  assume "snd (bulkDeleteQRCodes rx u body st) = st"
  then show ?thesis by simp
next
  fix q
  assume q: "bulk_delete_query u body = Some q"
    and st': "snd (bulkDeleteQRCodes rx u body st) = filter (\<lambda>r. \<not> matches rx q r) st"
  from bulk_delete_query_manufacturer [OF assms q]
  have "\<And>r. generatedBy r \<noteq> id_user u \<Longrightarrow> \<not> matches rx q r"
    by (auto dest: matches_generatedBy)
  then show ?thesis
    unfolding st' foreign_records_def filter_filter
    by (intro filter_cong) auto
qed

text \<open>
  C8. For a manufacturer and any store: every record a list request returns was
  generated by the manufacturer, whatever filters the request carries (its own
  \<open>generatedBy\<close> filter is replaced); and after a single delete or a bulk delete the
  records generated by others are all still there, in order.
\<close>

theorem manufacturer_scope:
  assumes "userType u = MANUFACTURER"
  shows "list_all (\<lambda>r. generatedBy r = id_user u) (listed_records (getQRCodes rx u rq st))
       \<and> foreign_records u (snd (deleteQRCode u i st)) = foreign_records u st
       \<and> foreign_records u (snd (bulkDeleteQRCodes rx u body st)) = foreign_records u st"
  using getQRCodes_manufacturer [OF assms] deleteQRCode_manufacturer [OF assms]
    bulkDelete_manufacturer [OF assms]
  by blast

lemma bulk_delete_query_batch:
  assumes "b \<noteq> []"
  shows "\<exists>q. (\<forall>ids. bulk_delete_query u \<lparr>body_qrCodeIds = ids, body_batchId = Some b\<rparr> = Some q)
           \<and> matches rx q = (\<lambda>r. batchId r = b \<and> in_scope u r)"
proof (cases "userType u = MANUFACTURER")
  case True
  let ?q = "empty_query\<lparr>query_batchId := Some b, query_generatedBy := Some (id_user u)\<rparr>"
  from assms True
  have "\<forall>ids. bulk_delete_query u \<lparr>body_qrCodeIds = ids, body_batchId = Some b\<rparr> = Some ?q"
    by (simp add: bulk_delete_query_def truthy_def Let_def)
  moreover from True have "matches rx ?q = (\<lambda>r. batchId r = b \<and> in_scope u r)"
    by (intro ext) (simp add: matches_def empty_query_def in_scope_def)
  ultimately show ?thesis by blast
next
  case False
  let ?q = "empty_query\<lparr>query_batchId := Some b\<rparr>"
  from assms False
  have "\<forall>ids. bulk_delete_query u \<lparr>body_qrCodeIds = ids, body_batchId = Some b\<rparr> = Some ?q"
    by (simp add: bulk_delete_query_def truthy_def Let_def)
  moreover from False have "matches rx ?q = (\<lambda>r. batchId r = b \<and> in_scope u r)"
    by (intro ext) (simp add: matches_def empty_query_def in_scope_def)
  ultimately show ?thesis by blast
qed

text \<open>
  C10. A bulk delete that carries a batch id and a non-empty id list equals the same
  request without the id list; it removes exactly the records of the batch that are in
  the actor's scope, whether or not their ids are listed, and no record outside the
  batch.
\<close>

theorem bulk_delete_by_batch_ignores_ids:
  assumes b: "b \<noteq> []" and ids: "ids \<noteq> []"
  shows "bulkDeleteQRCodes rx u \<lparr>body_qrCodeIds = Some ids, body_batchId = Some b\<rparr> st
       = bulkDeleteQRCodes rx u \<lparr>body_qrCodeIds = None, body_batchId = Some b\<rparr> st
     \<and> snd (bulkDeleteQRCodes rx u \<lparr>body_qrCodeIds = Some ids, body_batchId = Some b\<rparr> st)
       = filter (\<lambda>r. \<not> (batchId r = b \<and> in_scope u r)) st"
proof -
  from bulk_delete_query_batch [OF b, of u rx] obtain q
    where q: "\<And>ids. bulk_delete_query u \<lparr>body_qrCodeIds = ids, body_batchId = Some b\<rparr> = Some q"
      and m: "matches rx q = (\<lambda>r. batchId r = b \<and> in_scope u r)" by blast
  have same: "bulkDeleteQRCodes rx u \<lparr>body_qrCodeIds = Some ids, body_batchId = Some b\<rparr> st
       = bulkDeleteQRCodes rx u \<lparr>body_qrCodeIds = None, body_batchId = Some b\<rparr> st"
    using b ids
    by (simp add: bulkDeleteQRCodes_def validateBulkQRCodeDeletion_def truthy_def q)
  have "snd (bulkDeleteQRCodes rx u \<lparr>body_qrCodeIds = None, body_batchId = Some b\<rparr> st)
       = filter (\<lambda>r. \<not> (batchId r = b \<and> in_scope u r)) st"
  proof (cases "filter (\<lambda>r. batchId r = b \<and> in_scope u r) st = []")
    case True
    then have "filter (\<lambda>r. \<not> (batchId r = b \<and> in_scope u r)) st = st"
      by (auto simp: filter_empty_conv filter_id_conv)
    with True b show ?thesis
      by (simp add: bulkDeleteQRCodes_def validateBulkQRCodeDeletion_def truthy_def q m)
  next
    case False
    with b show ?thesis
      by (simp add: bulkDeleteQRCodes_def validateBulkQRCodeDeletion_def truthy_def
          q m Let_def deleteMany_def)
  qed
  with same show ?thesis by simp
qed


theorem manufacturer_scope_witness:
  "listed_records (getQRCodes (\<lambda>p s. False) demo_manufacturer
       \<lparr>req_page = None, req_limit = None, req_status = None, req_batchId = Some ''batch_a'',
        req_search = None, req_generatedBy = Some 8\<rparr> demo_store)
     = [owned_doc 7 1 ''aaaaaaaa'' ''batch_a'']
   \<and> foreign_records demo_manufacturer demo_store = [owned_doc 8 2 ''bbbbbbbb'' ''batch_a'']
   \<and> foreign_records demo_manufacturer (snd (deleteQRCode demo_manufacturer 2 demo_store))
     = [owned_doc 8 2 ''bbbbbbbb'' ''batch_a'']
   \<and> foreign_records demo_manufacturer
       (snd (bulkDeleteQRCodes (\<lambda>p s. False) demo_manufacturer
          \<lparr>body_qrCodeIds = None, body_batchId = Some ''batch_a''\<rparr> demo_store))
     = [owned_doc 8 2 ''bbbbbbbb'' ''batch_a'']
   \<and> snd (bulkDeleteQRCodes (\<lambda>p s. False) demo_manufacturer
          \<lparr>body_qrCodeIds = None, body_batchId = Some ''batch_a''\<rparr> demo_store)
     = [owned_doc 8 2 ''bbbbbbbb'' ''batch_a'', owned_doc 7 3 ''cccccccc'' ''batch_b'']"
proof -
  have m: "userType demo_manufacturer = MANUFACTURER" by (simp add: demo_manufacturer_def)
  have f: "foreign_records demo_manufacturer demo_store = [owned_doc 8 2 ''bbbbbbbb'' ''batch_a'']"
    by (simp add: foreign_records_def demo_store_def owned_doc_def demo_manufacturer_def
        demo_doc_def)
  have l: "listed_records (getQRCodes (\<lambda>p s. False) demo_manufacturer
       \<lparr>req_page = None, req_limit = None, req_status = None, req_batchId = Some ''batch_a'',
        req_search = None, req_generatedBy = Some 8\<rparr> demo_store)
     = [owned_doc 7 1 ''aaaaaaaa'' ''batch_a'']"
    by (simp add: listed_records_def getQRCodes_def list_query_def truthy_def matches_def
        empty_query_def demo_store_def owned_doc_def demo_manufacturer_def demo_doc_def Let_def)
  have d: "snd (bulkDeleteQRCodes (\<lambda>p s. False) demo_manufacturer
          \<lparr>body_qrCodeIds = None, body_batchId = Some ''batch_a''\<rparr> demo_store)
     = [owned_doc 8 2 ''bbbbbbbb'' ''batch_a'', owned_doc 7 3 ''cccccccc'' ''batch_b'']"
    by (simp add: bulkDeleteQRCodes_def validateBulkQRCodeDeletion_def truthy_def
        bulk_delete_query_def deleteMany_def matches_def
        empty_query_def demo_store_def owned_doc_def demo_manufacturer_def demo_doc_def Let_def)
  from manufacturer_scope [OF m, of "\<lambda>p s. False"
      "\<lparr>req_page = None, req_limit = None, req_status = None, req_batchId = Some ''batch_a'',
        req_search = None, req_generatedBy = Some 8\<rparr>" demo_store 2
      "\<lparr>body_qrCodeIds = None, body_batchId = Some ''batch_a''\<rparr>"]
  show ?thesis by (simp add: f l d)
qed

theorem bulk_delete_by_batch_ignores_ids_witness:
  "bulkDeleteQRCodes (\<lambda>p s. False) demo_manufacturer
       \<lparr>body_qrCodeIds = Some [3], body_batchId = Some ''batch_a''\<rparr> demo_store
     = bulkDeleteQRCodes (\<lambda>p s. False) demo_manufacturer
       \<lparr>body_qrCodeIds = None, body_batchId = Some ''batch_a''\<rparr> demo_store
   \<and> snd (bulkDeleteQRCodes (\<lambda>p s. False) demo_manufacturer
       \<lparr>body_qrCodeIds = Some [3], body_batchId = Some ''batch_a''\<rparr> demo_store)
     = [owned_doc 8 2 ''bbbbbbbb'' ''batch_a'', owned_doc 7 3 ''cccccccc'' ''batch_b'']"
proof -
  have e: "filter (\<lambda>r. \<not> (batchId r = ''batch_a'' \<and> in_scope demo_manufacturer r)) demo_store
      = [owned_doc 8 2 ''bbbbbbbb'' ''batch_a'', owned_doc 7 3 ''cccccccc'' ''batch_b'']"
    by (simp add: in_scope_def demo_store_def owned_doc_def demo_manufacturer_def demo_doc_def)
  show ?thesis
    unfolding e [symmetric]
    by (rule bulk_delete_by_batch_ignores_ids) simp_all
qed

end
